theory Spec2Isabelle
  imports Complex_Main "HOL-Library.Sublist"
begin

section \<open>JavaScript values used by the mock server\<close>

text \<open>
  The embedding follows the second (current) revision of \<^verbatim>\<open>mock_server.js\<close>, the one
  that exports \<^verbatim>\<open>close\<close> and validates the port. Strings are lists of ASCII
  characters. Numbers are IEEE doubles in the source; here a number is \<open>NaN\<close>, an infinity or
  a rational (every finite double is one), which is exact for all the source does with
  numbers: comparing them with constants, testing them for truthiness and passing them on.
\<close>

datatype jsnum = NaN | PosInf | NegInf | Fin rat

datatype jsval =
    JUndefined
  | JNull
  | JBool bool
  | JNum jsnum
  | JStr string
  | JObj "(string \<times> jsval) list"

text \<open>\<^verbatim>\<open>!!v\<close>: the values that count as true in a condition.\<close>

fun truthy :: "jsval \<Rightarrow> bool" where
  "truthy JUndefined = False"
| "truthy JNull = False"
| "truthy (JBool b) = b"
| "truthy (JNum NaN) = False"
| "truthy (JNum (Fin r)) = (r \<noteq> 0)"
| "truthy (JNum PosInf) = True"
| "truthy (JNum NegInf) = True"
| "truthy (JStr s) = (s \<noteq> [])"
| "truthy (JObj kvs) = True"

text \<open>
  \<^verbatim>\<open>isString\<close> and \<^verbatim>\<open>isNumber\<close> of the source (\<^verbatim>\<open>typeof myVar === 'string'\<close>,
  \<^verbatim>\<open>typeof myVar === 'number'\<close>; boxed \<^verbatim>\<open>String\<close> and \<^verbatim>\<open>Number\<close> objects are not
  part of the value model).
\<close>

fun isString :: "jsval \<Rightarrow> bool" where
  "isString (JStr s) = True"
| "isString v = False"

fun isNumber :: "jsval \<Rightarrow> bool" where
  "isNumber (JNum n) = True"
| "isNumber v = False"

text \<open>The relational operators and \<^verbatim>\<open>===\<close> on numbers: every comparison with \<open>NaN\<close> is false.\<close>

fun num_lt :: "jsnum \<Rightarrow> jsnum \<Rightarrow> bool" where
  "num_lt NaN b = False"
| "num_lt a NaN = False"
| "num_lt PosInf b = False"
| "num_lt NegInf b = (b \<noteq> NegInf)"
| "num_lt (Fin x) PosInf = True"
| "num_lt (Fin x) NegInf = False"
| "num_lt (Fin x) (Fin y) = (x < y)"

definition num_gt :: "jsnum \<Rightarrow> jsnum \<Rightarrow> bool" where
  "num_gt a b = num_lt b a"

definition num_eq :: "jsnum \<Rightarrow> jsnum \<Rightarrow> bool" where
  "num_eq a b = (a \<noteq> NaN \<and> b \<noteq> NaN \<and> a = b)"

subsection \<open>String primitives\<close>

text \<open>\<^verbatim>\<open>String.prototype.toUpperCase\<close> and \<^verbatim>\<open>toLowerCase\<close> on ASCII text.\<close>

definition lowerLetters :: string where
  "lowerLetters = ''abcdefghijklmnopqrstuvwxyz''"

definition upperLetters :: string where
  "upperLetters = ''ABCDEFGHIJKLMNOPQRSTUVWXYZ''"

definition upperChar :: "char \<Rightarrow> char" where
  "upperChar c = (case map_of (zip lowerLetters upperLetters) c of Some d \<Rightarrow> d | None \<Rightarrow> c)"

definition lowerChar :: "char \<Rightarrow> char" where
  "lowerChar c = (case map_of (zip upperLetters lowerLetters) c of Some d \<Rightarrow> d | None \<Rightarrow> c)"

definition toUpperCase :: "string \<Rightarrow> string" where
  "toUpperCase s = map upperChar s"

definition toLowerCase :: "string \<Rightarrow> string" where
  "toLowerCase s = map lowerChar s"

text \<open>
  \<^verbatim>\<open>s.indexOf(p)\<close>: the position of the first occurrence of \<open>p\<close> in \<open>s\<close>, or \<open>-1\<close>.
  The empty string occurs at position 0 of every string.
\<close>

fun indexOfFrom :: "nat \<Rightarrow> string \<Rightarrow> string \<Rightarrow> int" where
  "indexOfFrom i [] p = (if p = [] then int i else - 1)"
| "indexOfFrom i (c # cs) p =
     (if prefix p (c # cs) then int i else indexOfFrom (Suc i) cs p)"

definition indexOf :: "string \<Rightarrow> string \<Rightarrow> int" where
  "indexOf s p = indexOfFrom 0 s p"

text \<open>
  \<^verbatim>\<open>JSON.stringify\<close> of a string (the \<open>Quote\<close> operation of ECMAScript 5, 15.12.3): the
  text between double quotes, with the quote, the backslash and the control characters
  escaped.
\<close>

definition hexDigit :: "nat \<Rightarrow> char" where
  "hexDigit d = ''0123456789abcdef'' ! (d mod 16)"

definition quoteChar :: "char \<Rightarrow> string" where
  "quoteChar c =
     (let n = (of_char c :: nat) in
      if c = CHR 0x22 then [CHR 0x5C, CHR 0x22]
      else if c = CHR 0x5C then [CHR 0x5C, CHR 0x5C]
      else if n = 8 then [CHR 0x5C, CHR ''b'']
      else if n = 12 then [CHR 0x5C, CHR ''f'']
      else if n = 10 then [CHR 0x5C, CHR ''n'']
      else if n = 13 then [CHR 0x5C, CHR ''r'']
      else if n = 9 then [CHR 0x5C, CHR ''t'']
      else if n < 32 then [CHR 0x5C, CHR ''u'', CHR ''0'', CHR ''0'', hexDigit (n div 16), hexDigit (n mod 16)]
      else [c])"

definition JSON_stringify :: "string \<Rightarrow> string" where
  "JSON_stringify s = [CHR 0x22] @ concat (map quoteChar s) @ [CHR 0x22]"

text \<open>\<^verbatim>\<open>data.replace(/\"/g, "\\\"")\<close>: a backslash is put before every double quote.\<close>

definition escapeQuotes :: "string \<Rightarrow> string" where
  "escapeQuotes s = concat (map (\<lambda>c. if c = CHR 0x22 then [CHR 0x5C, CHR 0x22] else [c]) s)"

text \<open>
  \<^verbatim>\<open>String.prototype.trim\<close> and \<^verbatim>\<open>parseInt\<close> with no radix (ECMAScript 5, 15.1.2.2):
  leading white space is skipped, a sign is read, a \<^verbatim>\<open>0x\<close> prefix selects radix 16, and the
  longest prefix of digits is the value; with no digit the result is \<open>NaN\<close>. The value is
  kept exact: the rounding of a long digit string to a double does not move it across the
  two constants it is compared with.
\<close>

definition isWhiteSpace :: "char \<Rightarrow> bool" where
  "isWhiteSpace c = ((of_char c :: nat) \<in> {9, 10, 11, 12, 13, 32})"

definition trim :: "string \<Rightarrow> string" where
  "trim s = rev (dropWhile isWhiteSpace (rev (dropWhile isWhiteSpace s)))"

definition digitVal :: "char \<Rightarrow> nat" where
  "digitVal c =
     (let n = (of_char c :: nat) in
      if 48 \<le> n \<and> n \<le> 57 then n - 48
      else if 97 \<le> n \<and> n \<le> 122 then n - 87
      else if 65 \<le> n \<and> n \<le> 90 then n - 55
      else 36)"

definition parseInt :: "string \<Rightarrow> jsnum" where
  "parseInt inputString =
     (let S = dropWhile isWhiteSpace inputString;
          neg = (take 1 S = ''-'');
          S1 = (if take 1 S = ''-'' \<or> take 1 S = ''+'' then drop 1 S else S);
          hex = (take 2 S1 = ''0x'' \<or> take 2 S1 = ''0X'');
          R = (if hex then 16 else 10);
          S2 = (if hex then drop 2 S1 else S1);
          Z = takeWhile (\<lambda>c. digitVal c < R) S2;
          v = int (foldl (\<lambda>a c. a * R + digitVal c) 0 Z)
      in if Z = [] then NaN else Fin (of_int (if neg then - v else v)))"

section \<open>Data model\<close>

text \<open>
  What the source throws. Every \<^verbatim>\<open>throw\<close> of the source throws a message string; the
  constructors name the messages:
  \<^item> \<open>InvalidPortError NotNumeric\<close>: "Invalid port number: ...";
  \<^item> \<open>InvalidPortError OutOfRange\<close>: "Port number is out of the range[1025-49151]: ...";
  \<^item> \<open>ServerStartError\<close>: "Mock Server is NOT started successfully.";
  \<^item> \<open>UnmatchedPatternError\<close>: "Please call .when() to set the request pattern first";
  \<^item> \<open>MissingResponseError\<close>: "You have .when() been called, but NO .response() following
    to define the expected response.";
  \<^item> \<open>SyntaxError\<close>: raised by \<^verbatim>\<open>new RegExp(p)\<close> when \<open>p\<close> is not a regular expression;
  \<^item> \<open>TypeError\<close>: raised by a method call on \<^verbatim>\<open>undefined\<close>.
\<close>

datatype port_problem = NotNumeric | OutOfRange

datatype error =
    InvalidPortError port_problem
  | ServerStartError
  | UnmatchedPatternError
  | MissingResponseError
  | SyntaxError
  | TypeError

text \<open>
  A request pattern \<^verbatim>\<open>{method: ..., url: ..., data: ...}\<close>: each field is a string or is
  missing (the source calls string methods on the fields without testing their types, and
  the specification types them as optional strings). \<^verbatim>\<open>Object.keys\<close> lists the fields
  that are there; only their number is used.
\<close>

record pattern =
  method_pat :: "string option"
  url :: "string option"
  data :: "string option"

definition Object_keys :: "pattern \<Rightarrow> string list" where
  "Object_keys p =
     (if method_pat p = None then [] else [''method'']) @
     (if url p = None then [] else [''url'']) @
     (if data p = None then [] else [''data''])"

text \<open>The empty object \<^verbatim>\<open>{}\<close>.\<close>

definition emptyObject :: pattern where
  "emptyObject = \<lparr>method_pat = None, url = None, data = None\<rparr>"

text \<open>\<^verbatim>\<open>!x\<close> for a field that is a string or missing: missing and the empty string are falsy.\<close>

fun falsy :: "string option \<Rightarrow> bool" where
  "falsy None = True"
| "falsy (Some s) = (s = [])"

text \<open>
  A response plan. The source tests the types of these fields when a request is served, so
  each field is any value (\<open>JUndefined\<close> when the field is missing).
\<close>

record plan =
  status :: jsval
  headers :: jsval
  responseTime :: jsval
  isTimeout :: jsval
  responseText :: jsval
  responseFile :: jsval

text \<open>
  The request object the listener of the \<^verbatim>\<open>webserver\<close> module passes to the handler
  (\<open>post\<close> is the body text, there for POST and PUT only), and the \<^verbatim>\<open>requestData\<close> the
  browser automation passes to \<^verbatim>\<open>onResourceRequested\<close> (\<open>postData\<close> is missing when the
  page request has no body).
\<close>

record request =
  req_method :: string
  req_url :: string
  post :: "string option"

record requestData =
  rd_method :: string
  rd_url :: string
  postData :: "string option"

text \<open>
  What the platform provides: the regular expression engine (\<^verbatim>\<open>new RegExp(p).test(s)\<close>,
  \<open>None\<close> when \<open>p\<close> does not compile), \<^verbatim>\<open>fs.read\<close> (\<open>Inl\<close> the error it throws),
  the result of \<^verbatim>\<open>server.listen\<close> on a port, and whether \<^verbatim>\<open>casper\<close> is there.
\<close>

record host =
  regExp :: "string \<Rightarrow> string \<Rightarrow> bool option"
  fs_read :: "jsval \<Rightarrow> string + string"
  listen :: "jsnum \<Rightarrow> bool"
  isCasperInUsed :: bool

text \<open>
  What serving one request touches: the \<^verbatim>\<open>response\<close> object of the listener (its status
  code, its headers, the text written to it, whether it was closed), the timers registered
  with \<^verbatim>\<open>setTimeout\<close>, and the console. A timer holds its delay and the text its callback
  writes; \<open>fire\<close> is the callback.
\<close>

datatype log_event =
    LogMissingResponse
  | LogMatched string pattern
  | LogSimulateTimeout string
  | LogServedFromFile string jsval
  | LogError string
  | LogNoMatch string
  | LogServed string

record timer =
  after :: jsval
  text_to_write :: string

record exchange =
  statusCode :: jsval
  res_headers :: jsval
  written :: "string list"
  closed :: bool
  timers :: "timer list"
  console :: "log_event list"

definition fire :: "request \<Rightarrow> timer \<Rightarrow> exchange \<Rightarrow> exchange" where
  "fire req t x =
     x\<lparr>written := written x @ [text_to_write t], closed := True,
       console := console x @ [LogServed (req_url req)]\<rparr>"

text \<open>
  Objects are passed by reference. \<^verbatim>\<open>when(req)\<close> writes into the object it is given and
  keeps that object in \<^verbatim>\<open>_currentReq\<close>, and \<^verbatim>\<open>response\<close> puts the same object into
  \<^verbatim>\<open>_mapping\<close>; a later \<^verbatim>\<open>when\<close> on an object that is already in the list changes the entry
  of the list. So the patterns the caller made live in a store, by address, and the module
  holds references: to an object of the caller, or to an empty object \<^verbatim>\<open>{}\<close> the module made
  itself (which nothing else can reach, so it stays empty). The module never writes into a
  plan, so plans are kept as values.
\<close>

datatype objref = Literal | Caller nat

definition deref :: "(nat \<Rightarrow> pattern) \<Rightarrow> objref \<Rightarrow> pattern" where
  "deref objs r = (case r of Literal \<Rightarrow> emptyObject | Caller a \<Rightarrow> objs a)"

text \<open>
  The store of the caller's pattern objects and the module's variables: \<^verbatim>\<open>_mapping\<close>,
  \<^verbatim>\<open>_port\<close>, \<^verbatim>\<open>_isServerUp\<close>, \<^verbatim>\<open>_currentReq\<close>, whether \<^verbatim>\<open>server\<close> is not \<^verbatim>\<open>null\<close>, and
  whether \<^verbatim>\<open>casper.options.onResourceRequested\<close> is the filter of this module (otherwise
  it is the one found at load time).
\<close>

record server_state =
  objects :: "nat \<Rightarrow> pattern"
  v_mapping :: "(objref \<times> plan) list"
  v_port :: jsnum
  v_isServerUp :: bool
  v_currentReq :: objref
  v_server :: bool
  v_filterInstalled :: bool

text \<open>The module as loaded, beside a store of the caller.\<close>

definition initial :: "(nat \<Rightarrow> pattern) \<Rightarrow> server_state" where
  "initial objs = \<lparr>objects = objs, v_mapping = [], v_port = Fin 0, v_isServerUp = False,
     v_currentReq = Literal, v_server = False, v_filterInstalled = False\<rparr>"

text \<open>The object \<^verbatim>\<open>_currentReq\<close> refers to, and an entry of the list with its pattern looked up.\<close>

definition currentReq :: "server_state \<Rightarrow> pattern" where
  "currentReq s = deref (objects s) (v_currentReq s)"

definition entryOf :: "(nat \<Rightarrow> pattern) \<Rightarrow> objref \<times> plan \<Rightarrow> pattern \<times> plan" where
  "entryOf objs e = (deref objs (fst e), snd e)"

section \<open>Configuration calls\<close>

text \<open>
  A call returns the exception it threw, if any, and the state it left. The console output
  of the configuration calls is not part of the model.
\<close>

definition reset :: "host \<Rightarrow> server_state \<Rightarrow> server_state" where
  "reset h s =
     (let s1 = s\<lparr>v_mapping := [], v_currentReq := Literal\<rparr>
      in if isCasperInUsed h then s1\<lparr>v_filterInstalled := False\<rparr> else s1)"

definition close :: "host \<Rightarrow> server_state \<Rightarrow> server_state" where
  "close h s =
     (let s1 = reset h s;
          s2 = s1\<lparr>v_port := Fin 0, v_isServerUp := False\<rparr>
      in if v_server s2 then s2\<lparr>v_server := False\<rparr> else s2)"

definition addToResourceRequestedEvent :: "host \<Rightarrow> server_state \<Rightarrow> server_state" where
  "addToResourceRequestedEvent h s =
     (if num_eq (v_port s) (Fin 0) then s
      else if \<not> isCasperInUsed h then s
      else s\<lparr>v_filterInstalled := True\<rparr>)"

text \<open>
  \<^verbatim>\<open>when(req)\<close>, \<open>req\<close> the address of the caller's object: when its data is truthy the
  quotes are escaped in the object itself, and \<^verbatim>\<open>_currentReq\<close> becomes a reference to it.
\<close>

definition when_fn :: "nat \<Rightarrow> server_state \<Rightarrow> server_state" where
  "when_fn req s =
     (let s1 = (if \<not> falsy (data (objects s req))
                then s\<lparr>objects := (objects s)
                         (req := (objects s req)\<lparr>data := map_option escapeQuotes (data (objects s req))\<rparr>)\<rparr>
                else s)
      in s1\<lparr>v_currentReq := Caller req\<rparr>)"

definition response :: "host \<Rightarrow> plan \<Rightarrow> server_state \<Rightarrow> error option \<times> server_state" where
  "response h resp s =
     (if length (Object_keys (currentReq s)) = 0 then (Some UnmatchedPatternError, s)
      else
        let s1 = s\<lparr>v_mapping := v_mapping s @ [(v_currentReq s, resp)]\<rparr>;
            s2 = addToResourceRequestedEvent h s1
        in (None, s2\<lparr>v_currentReq := Literal\<rparr>))"

definition isServerUp :: "server_state \<Rightarrow> bool" where
  "isServerUp s = v_isServerUp s"


text \<open>
  \<^verbatim>\<open>start\<close>. \<open>thisPort\<close> is the port read from the argument; the source throws before it
  touches a variable when the argument is neither a string nor a number, or when the range
  test is true.
\<close>

definition thisPort :: "jsval \<Rightarrow> error + jsnum" where
  "thisPort port =
     (case port of
        JStr str \<Rightarrow> Inr (parseInt (trim str))
      | JNum n \<Rightarrow> Inr n
      | _ \<Rightarrow> Inl (InvalidPortError NotNumeric))"

definition start :: "host \<Rightarrow> jsval \<Rightarrow> server_state \<Rightarrow> error option \<times> server_state" where
  "start h port s =
     (case thisPort port of
        Inl e \<Rightarrow> (Some e, s)
      | Inr p \<Rightarrow>
          if num_gt p (Fin 49151) \<or> num_lt p (Fin 1025) then (Some (InvalidPortError OutOfRange), s)
          else if v_isServerUp s \<and> num_eq p (v_port s) then (None, reset h s)
          else
            let s1 = (if v_isServerUp s \<and> \<not> num_eq p (v_port s) then close h s else s);
                s2 = s1\<lparr>v_port := p, v_server := True\<rparr>;
                s3 = addToResourceRequestedEvent h s2;
                result = listen h p;
                s4 = s3\<lparr>v_isServerUp := result\<rparr>
            in if \<not> result then (Some ServerStartError, s4) else (None, s4))"

section \<open>Serving a request\<close>

text \<open>
  The condition of the handler's loop and of the filter's \<^verbatim>\<open>changeUrl\<close> is a chain of
  \<^verbatim>\<open>&&\<close> and \<^verbatim>\<open>||\<close>, evaluated from the left; an operand that throws ends the
  evaluation, an operand that is not reached is not evaluated.
\<close>

definition js_or :: "bool \<Rightarrow> error + bool \<Rightarrow> error + bool" where
  "js_or a b = (if a then Inr True else b)"

definition js_and :: "error + bool \<Rightarrow> error + bool \<Rightarrow> error + bool" where
  "js_and a b = (case a of Inl e \<Rightarrow> Inl e | Inr t \<Rightarrow> if t then b else Inr False)"

definition RegExp_test :: "host \<Rightarrow> string \<Rightarrow> string \<Rightarrow> error + bool" where
  "RegExp_test h p s = (case regExp h p s of None \<Rightarrow> Inl SyntaxError | Some b \<Rightarrow> Inr b)"

text \<open>The first two operands, the same text in the handler and in the filter.\<close>

definition methodOperand :: "pattern \<Rightarrow> string \<Rightarrow> bool" where
  "methodOperand expReq m =
     (case method_pat expReq of None \<Rightarrow> True | Some pm \<Rightarrow> pm = [] \<or> toUpperCase pm = m)"

definition urlOperand :: "host \<Rightarrow> pattern \<Rightarrow> string \<Rightarrow> error + bool" where
  "urlOperand h expReq u =
     (case url expReq of
        None \<Rightarrow> Inr True
      | Some pu \<Rightarrow> js_or (pu = []) (js_or (0 \<le> indexOf u pu) (RegExp_test h pu u)))"

text \<open>
  The condition of the handler (the \<^verbatim>\<open>if\<close> inside the loop of the listener). The body is
  looked at only when \<^verbatim>\<open>request.post\<close> is truthy (both operands that use it start with
  \<^verbatim>\<open>request.post &&\<close>), and what is searched is \<^verbatim>\<open>JSON.stringify(request.post)\<close>.
\<close>

definition entryMatches :: "host \<Rightarrow> pattern \<Rightarrow> request \<Rightarrow> error + bool" where
  "entryMatches h expReq req =
     js_and (Inr (methodOperand expReq (req_method req)))
       (js_and (urlOperand h expReq (req_url req))
          (case data expReq of
             None \<Rightarrow> Inr True
           | Some pd \<Rightarrow>
               js_or (pd = [])
                 (case post req of
                    None \<Rightarrow> Inr False
                  | Some body \<Rightarrow>
                      if body = [] then Inr False
                      else js_or (0 \<le> indexOf (JSON_stringify body) pd)
                             (RegExp_test h pd (JSON_stringify body)))))"

text \<open>
  The condition of \<^verbatim>\<open>changeUrl\<close> in the filter: \<^verbatim>\<open>requestData.postData\<close> is searched as
  it is, and \<^verbatim>\<open>indexOf\<close> is called on it whether it is there or not.
\<close>

definition changeUrlMatches :: "host \<Rightarrow> pattern \<Rightarrow> requestData \<Rightarrow> error + bool" where
  "changeUrlMatches h expReq rd =
     js_and (Inr (methodOperand expReq (rd_method rd)))
       (js_and (urlOperand h expReq (rd_url rd))
          (case data expReq of
             None \<Rightarrow> Inr True
           | Some pd \<Rightarrow>
               js_or (pd = [])
                 (case postData rd of
                    None \<Rightarrow> Inl TypeError
                  | Some body \<Rightarrow> js_or (0 \<le> indexOf body pd) (RegExp_test h pd body))))"

text \<open>
  The branch taken for the matching entry: status and headers are set, then either the
  timeout is simulated (nothing more happens) or the text is resolved and a timer is
  registered that writes it and closes the response.
\<close>

definition simulatesTimeout :: "plan \<Rightarrow> bool" where
  "simulatesTimeout expResp =
     (isTimeout expResp = JBool True \<or>
      (case isTimeout expResp of JStr t \<Rightarrow> toLowerCase t = ''true'' | _ \<Rightarrow> False))"

definition respond :: "host \<Rightarrow> request \<Rightarrow> pattern \<times> plan \<Rightarrow> exchange \<Rightarrow> exchange" where
  "respond h req entry x =
     (let expReq = fst entry;
          expResp = snd entry;
          x1 = x\<lparr>console := console x @ [LogMatched (req_url req) expReq]\<rparr>;
          st = (if truthy (status expResp) then status expResp else JNum (Fin 200));
          hs = (if truthy (headers expResp) then headers expResp else JObj []);
          x2 = x1\<lparr>statusCode := st, res_headers := hs\<rparr>
      in if simulatesTimeout expResp
         then x2\<lparr>console := console x2 @ [LogSimulateTimeout (req_url req)]\<rparr>
         else
           let timeout = (if \<not> isNumber (responseTime expResp) then JNum (Fin 0)
                          else responseTime expResp);
               tried = (\<not> isString (responseText expResp) \<and> truthy (responseFile expResp));
               x3 = (if tried
                     then x2\<lparr>console := console x2 @
                            [LogServedFromFile (req_url req) (responseFile expResp)]\<rparr>
                     else x2);
               (txt, x4) =
                 (if tried
                  then (case fs_read h (responseFile expResp) of
                          Inl err \<Rightarrow> (responseText expResp, x3\<lparr>console := console x3 @ [LogError err]\<rparr>)
                        | Inr contents \<Rightarrow> (JStr contents, x3))
                  else (responseText expResp, x3));
               txt1 = (case txt of JStr t \<Rightarrow> t | _ \<Rightarrow> [])
           in x4\<lparr>timers := timers x4 @ [\<lparr>after = timeout, text_to_write = txt1\<rparr>]\<rparr>)"


text \<open>
  The loop over \<^verbatim>\<open>_mapping\<close>: it runs while no entry has matched, so it ends at the first
  entry whose condition is true. The pattern of an entry is looked up in the store when
  the entry is reached. The result is \<^verbatim>\<open>isMatched\<close> with what was done, or the exception a
  condition threw.
\<close>

fun matchLoop ::
  "host \<Rightarrow> (nat \<Rightarrow> pattern) \<Rightarrow> (objref \<times> plan) list \<Rightarrow> request \<Rightarrow> exchange \<Rightarrow> error + (bool \<times> exchange)" where
  "matchLoop h objs [] req x = Inr (False, x)"
| "matchLoop h objs (entry # rest) req x =
     (case entryMatches h (deref objs (fst entry)) req of
        Inl e \<Rightarrow> Inl e
      | Inr t \<Rightarrow>
          if t then Inr (True, respond h req (entryOf objs entry) x)
          else matchLoop h objs rest req x)"

text \<open>
  The handler registered with \<^verbatim>\<open>server.listen\<close>: the test of the pending pattern, the
  loop, and the 404 answer when nothing matched.
\<close>

definition warning :: string where
  "warning = ''You have .when() been called, but NO .response() following to define the expected response.''"

definition notFound :: "request \<Rightarrow> exchange \<Rightarrow> exchange" where
  "notFound req x =
     x\<lparr>console := console x @ [LogNoMatch (req_url req)],
       statusCode := JNum (Fin 404), closed := True\<rparr>"

definition handler :: "host \<Rightarrow> server_state \<Rightarrow> request \<Rightarrow> exchange \<Rightarrow> error option \<times> exchange" where
  "handler h s req x =
     (if length (Object_keys (currentReq s)) \<noteq> 0
      then (Some MissingResponseError,
            x\<lparr>console := console x @ [LogMissingResponse],
              written := written x @ [warning], closed := True\<rparr>)
      else
        (case matchLoop h (objects s) (v_mapping s) req x of
           Inl e \<Rightarrow> (Some e, x)
         | Inr (isMatched, x1) \<Rightarrow>
             if \<not> isMatched then (None, notFound req x1) else (None, x1)))"

text \<open>The response object as the listener hands it over, before anything was done with it.\<close>

definition fresh :: exchange where
  "fresh = \<lparr>statusCode = JUndefined, res_headers = JUndefined, written = [], closed = False,
     timers = [], console = []\<rparr>"

section \<open>The matching rule and the synthesis policy as the specification words them\<close>

text \<open>
  Equality up to the case of the letters, and the three-part rule of the specification:
  each part holds when the field of the pattern is absent or when the field fits the
  request. \<open>missing\<close> says which fields count as absent; \<open>body\<close> is the text the data part
  is compared with, \<open>None\<close> when the request has no body.
\<close>

definition eqIgnoreCase :: "string \<Rightarrow> string \<Rightarrow> bool" where
  "eqIgnoreCase a b = (toUpperCase a = toUpperCase b)"

definition absent :: "string option \<Rightarrow> bool" where
  "absent v = (v = None)"

definition threePartRule ::
  "(string option \<Rightarrow> bool) \<Rightarrow> host \<Rightarrow> pattern \<Rightarrow> string \<Rightarrow> string \<Rightarrow> string option \<Rightarrow> bool" where
  "threePartRule missing h p m u body =
     ((missing (method_pat p) \<or> (case method_pat p of None \<Rightarrow> False | Some pm \<Rightarrow> eqIgnoreCase pm m)) \<and>
      (missing (url p) \<or>
         (case url p of None \<Rightarrow> False
          | Some pu \<Rightarrow> sublist pu u \<or> regExp h pu u = Some True)) \<and>
      (missing (data p) \<or>
         (case data p of None \<Rightarrow> False
          | Some pd \<Rightarrow>
              (case body of None \<Rightarrow> False
               | Some t \<Rightarrow> sublist pd t \<or> regExp h pd t = Some True))))"

text \<open>The body of a socket request, serialized; a request whose \<open>post\<close> is empty has none.\<close>

definition serializedBody :: "request \<Rightarrow> string option" where
  "serializedBody req =
     (case post req of None \<Rightarrow> None
      | Some b \<Rightarrow> if b = [] then None else Some (JSON_stringify b))"

text \<open>The body and the delay of a plan that does not simulate a timeout.\<close>

definition resolvedBody :: "host \<Rightarrow> plan \<Rightarrow> string" where
  "resolvedBody h p =
     (case responseText p of
        JStr t \<Rightarrow> t
      | _ \<Rightarrow>
          if truthy (responseFile p)
          then (case fs_read h (responseFile p) of Inr contents \<Rightarrow> contents | Inl err \<Rightarrow> [])
          else [])"

definition delayMs :: "plan \<Rightarrow> jsval" where
  "delayMs p = (case responseTime p of JNum n \<Rightarrow> JNum n | _ \<Rightarrow> JNum (Fin 0))"

text \<open>
  A script of \<^verbatim>\<open>when\<close> and \<^verbatim>\<open>response\<close> calls (\<open>When a\<close> passes the object at address
  \<open>a\<close>); a call that throws leaves the state as it was.
\<close>

datatype call = When nat | Response plan

fun run :: "host \<Rightarrow> call list \<Rightarrow> server_state \<Rightarrow> server_state" where
  "run h [] s = s"
| "run h (When a # cs) s = run h cs (when_fn a s)"
| "run h (Response r # cs) s = run h cs (snd (response h r s))"

text \<open>
  The pending-pattern slot as the specification words it: defining a request pattern sets
  it, defining a response plan clears it. \<open>pendingSlot sl cs\<close> is the slot after the calls
  \<open>cs\<close>, started from \<open>sl\<close>; it holds the address of the pending pattern.
\<close>

fun pendingSlot :: "nat option \<Rightarrow> call list \<Rightarrow> nat option" where
  "pendingSlot sl [] = sl"
| "pendingSlot sl (When a # cs) = pendingSlot (Some a) cs"
| "pendingSlot sl (Response r # cs) = pendingSlot None cs"

section \<open>Example values\<close>

text \<open>
  A platform for the examples. Its regular expression engine knows the patterns without a
  special character: such a pattern matches exactly the texts that contain it. Every other
  pattern is reported as not compiling, which is what the real engine does with the one
  such pattern used below, \<^verbatim>\<open>*.js\<close> (nothing to repeat). Its file system holds one file.
\<close>

definition specialChars :: string where
  "specialChars = [CHR 0x5C, CHR ''^'', CHR ''$'', CHR ''.'', CHR ''*'', CHR ''+'', CHR ''?'',
     CHR ''('', CHR '')'', CHR ''['', CHR '']'', CHR ''{'', CHR ''}'', CHR ''|'']"

definition literalRegExp :: "string \<Rightarrow> string \<Rightarrow> bool option" where
  "literalRegExp p s =
     (if list_ex (\<lambda>c. c \<in> set specialChars) p then None else Some (0 \<le> indexOf s p))"

definition exampleHost :: host where
  "exampleHost =
     \<lparr>regExp = literalRegExp,
      fs_read = (\<lambda>f. if f = JStr ''./mytest.txt'' then Inr ''file text'' else Inl ''no such file''),
      listen = (\<lambda>p. True),
      isCasperInUsed = False\<rparr>"

text \<open>The patterns and plans of the usage notes of the source.\<close>

definition pattern1 :: pattern where
  "pattern1 = \<lparr>method_pat = Some ''GET'', url = Some ''ajax_info_1'', data = None\<rparr>"

definition plan1 :: plan where
  "plan1 = \<lparr>status = JNum (Fin 200), headers = JUndefined, responseTime = JUndefined,
     isTimeout = JUndefined, responseText = JStr ''Mock Response 1'', responseFile = JUndefined\<rparr>"

definition pattern2 :: pattern where
  "pattern2 = \<lparr>method_pat = Some ''post'', url = Some ''ajax_info_2'', data = Some ''member_id=1''\<rparr>"

definition plan2 :: plan where
  "plan2 = \<lparr>status = JNum (Fin 200), headers = JUndefined, responseTime = JNum (Fin 5000),
     isTimeout = JUndefined, responseText = JStr ''Mock Response 2'', responseFile = JUndefined\<rparr>"

definition planFile :: plan where
  "planFile = \<lparr>status = JUndefined, headers = JUndefined, responseTime = JStr ''5000'',
     isTimeout = JStr ''false'', responseText = JUndefined, responseFile = JStr ''./missing.txt''\<rparr>"

definition planTimeout :: plan where
  "planTimeout = \<lparr>status = JNum (Fin 200), headers = JUndefined, responseTime = JNum (Fin 5000),
     isTimeout = JStr ''True'', responseText = JStr ''never sent'', responseFile = JUndefined\<rparr>"

definition patternGlob :: pattern where
  "patternGlob = \<lparr>method_pat = None, url = Some ''*.js'', data = None\<rparr>"

definition request1 :: request where
  "request1 = \<lparr>req_method = ''GET'', req_url = ''/ajax_info_1?x=1'', post = None\<rparr>"

definition request2 :: request where
  "request2 = \<lparr>req_method = ''POST'', req_url = ''/ajax_info_2'', post = Some ''a=b&member_id=1''\<rparr>"

text \<open>
  A pattern whose data is the empty string; a pattern whose data has a line break, with a
  body of two lines that contains it, as the handler and as the filter receive it; and a
  request with no body as the filter receives it.
\<close>

definition patternEmptyData :: pattern where
  "patternEmptyData = \<lparr>method_pat = None, url = None, data = Some []\<rparr>"

definition patternLines :: pattern where
  "patternLines = \<lparr>method_pat = None, url = None, data = Some [CHR ''1'', CHR 0x0A, CHR ''b'']\<rparr>"

definition bodyLines :: string where
  "bodyLines = [CHR ''a'', CHR ''='', CHR ''1'', CHR 0x0A, CHR ''b'', CHR ''='', CHR ''2'']"

definition requestLines :: request where
  "requestLines = \<lparr>req_method = ''POST'', req_url = ''/ajax_info_2'', post = Some bodyLines\<rparr>"

definition requestDataLines :: requestData where
  "requestDataLines = \<lparr>rd_method = ''POST'', rd_url = ''/ajax_info_2'', postData = Some bodyLines\<rparr>"

definition requestNoBody :: request where
  "requestNoBody = \<lparr>req_method = ''POST'', req_url = ''/ajax_info_2'', post = None\<rparr>"

definition requestDataNoBody :: requestData where
  "requestDataNoBody = \<lparr>rd_method = ''POST'', rd_url = ''/ajax_info_2'', postData = None\<rparr>"

definition patternQuoted :: pattern where
  "patternQuoted = \<lparr>method_pat = None, url = None, data = Some [CHR ''a'', CHR 0x22, CHR ''b'']\<rparr>"

text \<open>
  The store of the examples: the object \<^verbatim>\<open>{}\<close> at address 10 (and wherever nothing else
  is), and the patterns above at the addresses 11 to 16.
\<close>

definition exampleObjects :: "nat \<Rightarrow> pattern" where
  "exampleObjects a =
     (if a = 11 then pattern1 else if a = 12 then pattern2 else if a = 13 then patternGlob
      else if a = 14 then patternEmptyData else if a = 15 then patternLines
      else if a = 16 then patternQuoted else emptyObject)"

text \<open>
  States a script reaches: the server started on port 9001; the same with three entries;
  with a pattern left pending; with \<^verbatim>\<open>when({})\<close> called last; a list whose first pattern is
  not a regular expression; a list whose entry simulates a timeout; and a list whose second
  entry is served from a file that is not there.
\<close>

definition started :: server_state where
  "started = snd (start exampleHost (JStr ''9001'') (initial exampleObjects))"

definition script3 :: "call list" where
  "script3 = [When 12, Response plan2, When 11, Response plan1, When 13, Response planTimeout]"

definition configured :: server_state where
  "configured = run exampleHost script3 started"

definition halfConfigured :: server_state where
  "halfConfigured = run exampleHost (script3 @ [When 12]) started"

definition emptyPending :: server_state where
  "emptyPending = run exampleHost (script3 @ [When 10]) started"

definition globFirst :: server_state where
  "globFirst = run exampleHost [When 13, Response planTimeout, When 11, Response plan1] started"

definition timeoutConfigured :: server_state where
  "timeoutConfigured = run exampleHost [When 11, Response planTimeout] started"

definition fileConfigured :: server_state where
  "fileConfigured = run exampleHost [When 12, Response plan2, When 11, Response planFile] started"

definition quotedStored :: server_state where
  "quotedStored = run exampleHost [When 16, Response plan1] started"


section \<open>Facts about the primitives\<close>

lemma indexOfFrom_sublist: "0 \<le> indexOfFrom i s p \<longleftrightarrow> sublist p s"
  by (induction s arbitrary: i) (auto simp: sublist_Cons_right)

lemma indexOf_sublist: "0 \<le> indexOf s p \<longleftrightarrow> sublist p s"
  by (simp add: indexOf_def indexOfFrom_sublist)

lemma keys_emptyObject: "Object_keys emptyObject = []"
  by (simp add: Object_keys_def emptyObject_def)

lemma deref_simps: "deref objs Literal = emptyObject" "deref objs (Caller a) = objs a"
  by (simp_all add: deref_def)

lemma reset_fields:
  "v_mapping (reset h s) = []" "v_currentReq (reset h s) = Literal"
  "currentReq (reset h s) = emptyObject" "objects (reset h s) = objects s"
  by (simp_all add: reset_def currentReq_def deref_simps Let_def)

lemma data_update_same: "data p = v \<Longrightarrow> p\<lparr>data := v\<rparr> = p"
  by (cases p) auto

lemma when_fn_fields:
  "v_currentReq (when_fn a s) = Caller a"
  "v_mapping (when_fn a s) = v_mapping s"
  "objects (when_fn a s) =
     (objects s)(a := (objects s a)\<lparr>data := map_option escapeQuotes (data (objects s a))\<rparr>)"
proof -
  show "v_currentReq (when_fn a s) = Caller a" "v_mapping (when_fn a s) = v_mapping s"
    by (simp_all add: when_fn_def Let_def)
  show "objects (when_fn a s) =
     (objects s)(a := (objects s a)\<lparr>data := map_option escapeQuotes (data (objects s a))\<rparr>)"
  proof (cases "data (objects s a)")
    case None
    then show ?thesis by (simp add: when_fn_def Let_def data_update_same)
  next
    case (Some d)
    then show ?thesis
      by (cases "d = []") (simp_all add: when_fn_def Let_def escapeQuotes_def data_update_same)
  qed
qed

lemma keys_escaped:
  "Object_keys (p\<lparr>data := map_option escapeQuotes (data p)\<rparr>) = Object_keys p"
  by (simp add: Object_keys_def)

lemma currentReq_when_fn:
  "currentReq (when_fn a s) = (objects s a)\<lparr>data := map_option escapeQuotes (data (objects s a))\<rparr>"
  by (simp add: currentReq_def when_fn_fields deref_simps)

section \<open>Facts about the examples\<close>

lemma parseInt_9001: "parseInt (trim ''9001'') = Fin 9001"
  by (simp add: parseInt_def trim_def isWhiteSpace_def digitVal_def)

lemma started_eq:
  "started = (initial exampleObjects)\<lparr>v_port := Fin 9001, v_server := True, v_isServerUp := True\<rparr>"
  by (simp add: started_def start_def thisPort_def parseInt_9001 num_gt_def initial_def
      exampleHost_def addToResourceRequestedEvent_def num_eq_def Let_def)

lemma escaped_example:
  "a \<noteq> 16 \<Longrightarrow>
   (exampleObjects a)\<lparr>data := map_option escapeQuotes (data (exampleObjects a))\<rparr> = exampleObjects a"
  by (simp add: exampleObjects_def pattern1_def pattern2_def patternGlob_def patternEmptyData_def
      patternLines_def emptyObject_def escapeQuotes_def)

lemma when_example:
  assumes "objects s = exampleObjects" and "a \<noteq> 16"
  shows "when_fn a s = s\<lparr>v_currentReq := Caller a\<rparr>"
proof -
  have "objects (when_fn a s) = objects s"
    using assms by (simp add: when_fn_fields escaped_example)
  then show ?thesis
    by (cases "\<not> falsy (data (objects s a))") (simp_all add: when_fn_def Let_def)
qed

lemma keys_examples:
  "Object_keys pattern1 = [''method'', ''url'']"
  "Object_keys pattern2 = [''method'', ''url'', ''data'']"
  "Object_keys patternGlob = [''url'']"
  "Object_keys patternEmptyData = [''data'']"
  by (simp_all add: Object_keys_def pattern1_def pattern2_def patternGlob_def patternEmptyData_def)

lemma exampleObjects_simps:
  "exampleObjects 10 = emptyObject" "exampleObjects 11 = pattern1" "exampleObjects 12 = pattern2"
  "exampleObjects 13 = patternGlob" "exampleObjects 14 = patternEmptyData"
  "exampleObjects 15 = patternLines" "exampleObjects 16 = patternQuoted"
  by (simp_all add: exampleObjects_def)

lemma response_example:
  "Object_keys (currentReq s) \<noteq> [] \<Longrightarrow>
   response exampleHost r s =
     (None, s\<lparr>v_mapping := v_mapping s @ [(v_currentReq s, r)], v_currentReq := Literal\<rparr>)"
  by (simp add: response_def addToResourceRequestedEvent_def exampleHost_def Let_def)

lemma configured_eq:
  "configured =
     \<lparr>objects = exampleObjects,
      v_mapping = [(Caller 12, plan2), (Caller 11, plan1), (Caller 13, planTimeout)],
      v_port = Fin 9001, v_isServerUp = True, v_currentReq = Literal, v_server = True,
      v_filterInstalled = False\<rparr>"
  unfolding configured_def script3_def started_eq
  by (simp add: when_example response_example keys_examples exampleObjects_simps initial_def
      currentReq_def deref_simps)

lemma halfConfigured_eq: "halfConfigured = configured\<lparr>v_currentReq := Caller 12\<rparr>"
proof -
  have "halfConfigured = when_fn 12 configured"
    unfolding halfConfigured_def configured_def script3_def started_eq
    by (simp add: when_example response_example keys_examples exampleObjects_simps initial_def
      currentReq_def deref_simps)
  then show ?thesis by (simp add: when_example configured_eq)
qed

lemma emptyPending_eq: "emptyPending = configured\<lparr>v_currentReq := Caller 10\<rparr>"
proof -
  have "emptyPending = when_fn 10 configured"
    unfolding emptyPending_def configured_def script3_def started_eq
    by (simp add: when_example response_example keys_examples exampleObjects_simps initial_def
      currentReq_def deref_simps)
  then show ?thesis by (simp add: when_example configured_eq)
qed

lemma globFirst_eq:
  "globFirst =
     \<lparr>objects = exampleObjects,
      v_mapping = [(Caller 13, planTimeout), (Caller 11, plan1)],
      v_port = Fin 9001, v_isServerUp = True, v_currentReq = Literal, v_server = True,
      v_filterInstalled = False\<rparr>"
  unfolding globFirst_def started_eq
  by (simp add: when_example response_example keys_examples exampleObjects_simps initial_def
      currentReq_def deref_simps)

lemma timeoutConfigured_eq:
  "timeoutConfigured =
     \<lparr>objects = exampleObjects, v_mapping = [(Caller 11, planTimeout)],
      v_port = Fin 9001, v_isServerUp = True, v_currentReq = Literal, v_server = True,
      v_filterInstalled = False\<rparr>"
  unfolding timeoutConfigured_def started_eq
  by (simp add: when_example response_example keys_examples exampleObjects_simps initial_def
      currentReq_def deref_simps)

lemma fileConfigured_eq:
  "fileConfigured =
     \<lparr>objects = exampleObjects, v_mapping = [(Caller 12, plan2), (Caller 11, planFile)],
      v_port = Fin 9001, v_isServerUp = True, v_currentReq = Literal, v_server = True,
      v_filterInstalled = False\<rparr>"
  unfolding fileConfigured_def started_eq
  by (simp add: when_example response_example keys_examples exampleObjects_simps initial_def
      currentReq_def deref_simps)

lemma toUpperCase_examples:
  "toUpperCase ''GET'' = ''GET''" "toUpperCase ''post'' = ''POST''" "toUpperCase ''POST'' = ''POST''"
  by (simp_all add: toUpperCase_def upperChar_def lowerLetters_def upperLetters_def)

lemma match_examples:
  "entryMatches exampleHost pattern1 request1 = Inr True"
  "entryMatches exampleHost pattern2 request1 = Inr False"
  "entryMatches exampleHost patternGlob request1 = Inl SyntaxError"
  by (simp_all add: entryMatches_def pattern1_def pattern2_def patternGlob_def request1_def
      methodOperand_def urlOperand_def js_and_def js_or_def toUpperCase_examples indexOf_def
      RegExp_test_def exampleHost_def literalRegExp_def specialChars_def)

lemma match_example2: "entryMatches exampleHost pattern2 request2 = Inr True"
  by (simp add: entryMatches_def pattern2_def request2_def methodOperand_def urlOperand_def
      js_and_def js_or_def toUpperCase_examples indexOf_def JSON_stringify_def quoteChar_def)

section \<open>The pending pattern\<close>

lemma started_fields:
  "objects started = exampleObjects" "v_mapping started = []" "v_currentReq started = Literal"
  "currentReq started = emptyObject"
  by (simp_all add: started_eq initial_def currentReq_def deref_simps)

lemma when_started:
  "a \<noteq> 16 \<Longrightarrow> when_fn a started = started\<lparr>v_currentReq := Caller a\<rparr>"
  by (rule when_example) (simp_all add: started_fields)

text \<open>
  Claim C4, as the code has it. The source reads "the slot is empty" as "\<^verbatim>\<open>_currentReq\<close> has
  no key". \<^verbatim>\<open>response(plan)\<close> called while \<^verbatim>\<open>_currentReq\<close> has no key throws the
  unmatched-pattern message and leaves every variable, the mapping list among them, as it
  was. Called while \<^verbatim>\<open>_currentReq\<close> has a key, it throws nothing, appends the pair of the
  pending pattern (the object itself) and the plan at the end of the list, and empties the
  slot.
\<close>

theorem response_needs_pending_pattern:
  "(length (Object_keys (currentReq s)) = 0 \<longrightarrow>
      response h resp s = (Some UnmatchedPatternError, s)) \<and>
   (length (Object_keys (currentReq s)) \<noteq> 0 \<longrightarrow>
      fst (response h resp s) = None \<and>
      v_mapping (snd (response h resp s)) = v_mapping s @ [(v_currentReq s, resp)] \<and>
      entryOf (objects (snd (response h resp s))) (v_currentReq s, resp) = (currentReq s, resp) \<and>
      objects (snd (response h resp s)) = objects s \<and>
      v_currentReq (snd (response h resp s)) = Literal \<and>
      length (Object_keys (currentReq (snd (response h resp s)))) = 0)"
  by (simp add: response_def Let_def addToResourceRequestedEvent_def keys_emptyObject
      currentReq_def entryOf_def deref_simps)

theorem response_needs_pending_pattern_witness:
  "length (Object_keys (currentReq started)) = 0 \<and>
   response exampleHost plan1 started = (Some UnmatchedPatternError, started) \<and>
   length (Object_keys (currentReq (when_fn 11 started))) \<noteq> 0 \<and>
   fst (response exampleHost plan1 (when_fn 11 started)) = None \<and>
   v_mapping (snd (response exampleHost plan1 (when_fn 11 started))) = [(Caller 11, plan1)] \<and>
   entryOf (objects (snd (response exampleHost plan1 (when_fn 11 started)))) (Caller 11, plan1) =
     (pattern1, plan1) \<and>
   v_currentReq (snd (response exampleHost plan1 (when_fn 11 started))) = Literal"
proof -
  have e: "length (Object_keys (currentReq started)) = 0"
    by (simp add: started_fields keys_emptyObject)
  have p: "currentReq (when_fn 11 started) = pattern1"
    by (simp add: when_started currentReq_def deref_simps started_fields exampleObjects_simps)
  have n: "length (Object_keys (currentReq (when_fn 11 started))) \<noteq> 0"
    by (simp add: p keys_examples)
  have m: "v_mapping (when_fn 11 started) = []" "v_currentReq (when_fn 11 started) = Caller 11"
    by (simp_all add: when_started started_fields)
  have q: "entryOf (objects (when_fn 11 started)) (Caller 11, plan1) = (pattern1, plan1)"
    by (simp add: when_started entryOf_def deref_simps started_fields exampleObjects_simps)
  show ?thesis
    using e n p m q
      response_needs_pending_pattern [of started exampleHost plan1]
      response_needs_pending_pattern [of "when_fn 11 started" exampleHost plan1]
    by simp
qed

text \<open>
  The claim as the specification states it, with the slot set by every \<^verbatim>\<open>when\<close>, fails
  for \<^verbatim>\<open>when({})\<close>: the slot is set, and \<^verbatim>\<open>response(plan)\<close> throws and appends nothing,
  because the object in the slot has no key.
\<close>

theorem response_needs_pending_pattern_counterexample:
  "pendingSlot None [When 10] = Some 10 \<and>
   objects started 10 = emptyObject \<and>
   response exampleHost plan1 (run exampleHost [When 10] started) =
     (Some UnmatchedPatternError, run exampleHost [When 10] started) \<and>
   v_mapping (run exampleHost [When 10] started) = []"
proof -
  have c: "currentReq (when_fn 10 started) = emptyObject"
    by (simp add: when_started currentReq_def deref_simps started_fields exampleObjects_simps)
  have m: "v_mapping (when_fn 10 started) = []"
    by (simp add: when_started started_fields)
  show ?thesis
    by (simp add: response_def c m keys_emptyObject started_fields exampleObjects_simps)
qed

text \<open>
  Claim C5. After \<^verbatim>\<open>reset()\<close>, whatever script of \<^verbatim>\<open>when\<close> and \<^verbatim>\<open>response\<close> calls ran
  before it from whatever state, the mapping list is empty and the pending slot is empty;
  the handler then finds no entry for any request and takes the 404 branch: the status code
  is 404, the response is closed, nothing is written and no timer is registered.
\<close>

theorem reset_then_404:
  "v_mapping (reset h (run h calls s)) = [] \<and>
   v_currentReq (reset h (run h calls s)) = Literal \<and>
   length (Object_keys (currentReq (reset h (run h calls s)))) = 0 \<and>
   handler h (reset h (run h calls s)) req x = (None, notFound req x) \<and>
   statusCode (notFound req x) = JNum (Fin 404) \<and>
   written (notFound req x) = written x \<and>
   timers (notFound req x) = timers x \<and>
   closed (notFound req x)"
  by (simp add: reset_fields keys_emptyObject handler_def notFound_def)

text \<open>
  Claim C10, as the code has it. A request that arrives while \<^verbatim>\<open>_currentReq\<close> has a key
  (a \<^verbatim>\<open>when\<close> was called with an object that has a field, and no \<^verbatim>\<open>response\<close> followed)
  is answered without looking at the mapping list: the handler writes the fixed warning,
  closes the response and throws the warning, and this outcome is the same whatever the
  list holds.
\<close>

theorem pending_pattern_blocks_handler:
  assumes "length (Object_keys (currentReq s)) \<noteq> 0"
  shows "handler h s req x =
           (Some MissingResponseError,
            x\<lparr>console := console x @ [LogMissingResponse],
              written := written x @
                [''You have .when() been called, but NO .response() following to define the expected response.''],
              closed := True\<rparr>) \<and>
         handler h (s\<lparr>v_mapping := m\<rparr>) req x = handler h s req x"
  using assms by (simp add: handler_def currentReq_def warning_def)

section \<open>The loop of the handler\<close>

lemma matchLoop_first:
  assumes "\<forall>e \<in> set pre. entryMatches h (deref objs (fst e)) req = Inr False"
    and "entryMatches h (deref objs (fst entry)) req = Inr True"
  shows "matchLoop h objs (pre @ entry # rest) req x =
           Inr (True, respond h req (entryOf objs entry) x)"
  using assms by (induction pre) simp_all

lemma matchLoop_throws:
  assumes "\<forall>e \<in> set pre. entryMatches h (deref objs (fst e)) req = Inr False"
    and "entryMatches h (deref objs (fst entry)) req = Inl err"
  shows "matchLoop h objs (pre @ entry # rest) req x = Inl err"
  using assms by (induction pre) simp_all

lemma matchLoop_none:
  assumes "\<forall>e \<in> set m. entryMatches h (deref objs (fst e)) req = Inr False"
  shows "matchLoop h objs m req x = Inr (False, x)"
  using assms by (induction m) simp_all

lemma handler_first_match:
  assumes "length (Object_keys (currentReq s)) = 0"
    and "v_mapping s = pre @ entry # rest"
    and "\<forall>e \<in> set pre. entryMatches h (deref (objects s) (fst e)) req = Inr False"
    and "entryMatches h (deref (objects s) (fst entry)) req = Inr True"
  shows "handler h s req x = (None, respond h req (entryOf (objects s) entry) x)"
  using assms(1,2) matchLoop_first [OF assms(3,4)] by (simp add: handler_def)

lemma respond_untouched:
  "closed (respond h req entry x) = closed x"
  "written (respond h req entry x) = written x"
  by (simp_all add: respond_def Let_def split: sum.splits prod.splits)

lemma handler_examples:
  "handler exampleHost configured request1 fresh =
     (None, respond exampleHost request1 (pattern1, plan1) fresh)"
  "handler exampleHost emptyPending request1 fresh =
     (None, respond exampleHost request1 (pattern1, plan1) fresh)"
  by (simp_all add: handler_def configured_eq emptyPending_eq currentReq_def deref_simps
      entryOf_def exampleObjects_simps keys_emptyObject match_examples)

theorem pending_pattern_blocks_handler_witness:
  "length (Object_keys (currentReq halfConfigured)) \<noteq> 0 \<and>
   (Caller 11, plan1) \<in> set (v_mapping halfConfigured) \<and>
   entryMatches exampleHost (deref (objects halfConfigured) (Caller 11)) request1 = Inr True \<and>
   handler exampleHost halfConfigured request1 fresh =
     (Some MissingResponseError,
      fresh\<lparr>console := [LogMissingResponse], written := [warning], closed := True\<rparr>)"
proof -
  have k: "length (Object_keys (currentReq halfConfigured)) \<noteq> 0"
    by (simp add: halfConfigured_eq configured_eq currentReq_def deref_simps
        exampleObjects_simps keys_examples)
  have m: "(Caller 11, plan1) \<in> set (v_mapping halfConfigured)"
    by (simp add: halfConfigured_eq configured_eq)
  have d: "deref (objects halfConfigured) (Caller 11) = pattern1"
    by (simp add: halfConfigured_eq configured_eq deref_simps exampleObjects_simps)
  show ?thesis
    using k m pending_pattern_blocks_handler [OF k, of exampleHost request1 fresh]
    by (simp add: d match_examples fresh_def warning_def)
qed

text \<open>
  The claim as the specification states it, for every \<^verbatim>\<open>when\<close> with no \<^verbatim>\<open>response\<close> after
  it, fails for \<^verbatim>\<open>when({})\<close>: the slot is set, yet the handler writes no warning, looks
  at the list and serves the entry that matches.
\<close>

theorem pending_pattern_blocks_handler_counterexample:
  "pendingSlot None (script3 @ [When 10]) = Some 10 \<and>
   emptyPending = run exampleHost (script3 @ [When 10]) started \<and>
   objects emptyPending 10 = emptyObject \<and>
   handler exampleHost emptyPending request1 fresh =
     (None, respond exampleHost request1 (pattern1, plan1) fresh) \<and>
   written (snd (handler exampleHost emptyPending request1 fresh)) = [] \<and>
   \<not> closed (snd (handler exampleHost emptyPending request1 fresh))"
proof -
  have a: "pendingSlot None (script3 @ [When 10]) = Some 10"
    by (simp add: script3_def)
  have b: "emptyPending = run exampleHost (script3 @ [When 10]) started"
    by (simp add: emptyPending_def)
  have c: "objects emptyPending 10 = emptyObject"
    by (simp add: emptyPending_eq configured_eq exampleObjects_simps)
  have d: "handler exampleHost emptyPending request1 fresh =
     (None, respond exampleHost request1 (pattern1, plan1) fresh)"
    by (rule handler_examples)
  have e: "written (snd (handler exampleHost emptyPending request1 fresh)) = []"
    "\<not> closed (snd (handler exampleHost emptyPending request1 fresh))"
    by (simp_all add: d respond_untouched) (simp_all add: fresh_def)
  from a b c d e show ?thesis by blast
qed

text \<open>
  Claim C1, as the code has it. For a request that arrives while the pending slot is empty,
  and a mapping list in which an entry matches and every entry before it evaluates to no
  match, the handler does for that entry what the matching branch does and nothing else:
  the loop ends there, the entries after it are not evaluated (the outcome is the same
  whatever they are), and the 404 branch is not taken (nothing is thrown, the response is
  not closed by the handler).
\<close>

theorem first_match_wins:
  assumes "length (Object_keys (currentReq s)) = 0"
    and "v_mapping s = pre @ entry # rest"
    and "\<forall>e \<in> set pre. entryMatches h (deref (objects s) (fst e)) req = Inr False"
    and "entryMatches h (deref (objects s) (fst entry)) req = Inr True"
  shows "matchLoop h (objects s) (pre @ entry # rest) req x =
           Inr (True, respond h req (entryOf (objects s) entry) x) \<and>
         handler h s req x = (None, respond h req (entryOf (objects s) entry) x) \<and>
         handler h (s\<lparr>v_mapping := pre @ entry # others\<rparr>) req x = handler h s req x \<and>
         closed (snd (handler h s req x)) = closed x"
proof -
  have loop: "matchLoop h (objects s) (pre @ entry # r) req x =
                Inr (True, respond h req (entryOf (objects s) entry) x)" for r
    using assms(3,4) by (rule matchLoop_first)
  show ?thesis
    using assms(1,2) loop by (simp add: handler_def respond_untouched currentReq_def)
qed

theorem first_match_wins_witness:
  "length (Object_keys (currentReq configured)) = 0 \<and>
   v_mapping configured = [(Caller 12, plan2)] @ (Caller 11, plan1) # [(Caller 13, planTimeout)] \<and>
   entryMatches exampleHost (deref (objects configured) (fst (Caller 12, plan2))) request1 = Inr False \<and>
   entryMatches exampleHost (deref (objects configured) (fst (Caller 11, plan1))) request1 = Inr True \<and>
   entryMatches exampleHost (deref (objects configured) (Caller 13)) request1 = Inl SyntaxError \<and>
   entryOf (objects configured) (Caller 11, plan1) = (pattern1, plan1) \<and>
   handler exampleHost configured request1 fresh =
     (None, respond exampleHost request1 (pattern1, plan1) fresh)"
proof -
  have o: "objects configured = exampleObjects"
    by (simp add: configured_eq)
  have a: "length (Object_keys (currentReq configured)) = 0"
    by (simp add: configured_eq currentReq_def deref_simps keys_emptyObject)
  have b: "v_mapping configured = [(Caller 12, plan2)] @ (Caller 11, plan1) # [(Caller 13, planTimeout)]"
    by (simp add: configured_eq)
  have c: "\<forall>e \<in> set [(Caller 12, plan2)].
             entryMatches exampleHost (deref (objects configured) (fst e)) request1 = Inr False"
    by (simp add: o deref_simps exampleObjects_simps match_examples)
  have d: "entryMatches exampleHost (deref (objects configured) (fst (Caller 11, plan1))) request1 = Inr True"
    by (simp add: o deref_simps exampleObjects_simps match_examples)
  show ?thesis
    using a b c d first_match_wins [where x = fresh, OF a b c d]
    by (simp add: o deref_simps entryOf_def exampleObjects_simps match_examples)
qed

text \<open>
  The claim as the specification states it, for every inbound request and every list with
  a matching entry, fails in two states a script reaches. In the first a pattern is
  pending: the handler answers with the warning and the matching entry is not looked at.
  In the second the entry before the matching one has a pattern that is not a regular
  expression: the condition throws and no response is made.
\<close>

theorem first_match_wins_counterexample:
  "entryMatches exampleHost (deref (objects halfConfigured) (Caller 11)) request1 = Inr True \<and>
   (Caller 11, plan1) \<in> set (v_mapping halfConfigured) \<and>
   handler exampleHost halfConfigured request1 fresh =
     (Some MissingResponseError,
      fresh\<lparr>console := [LogMissingResponse], written := [warning], closed := True\<rparr>) \<and>
   entryMatches exampleHost (deref (objects globFirst) (Caller 11)) request1 = Inr True \<and>
   (Caller 11, plan1) \<in> set (v_mapping globFirst) \<and>
   length (Object_keys (currentReq globFirst)) = 0 \<and>
   handler exampleHost globFirst request1 fresh = (Some SyntaxError, fresh)"
  by (simp add: match_examples halfConfigured_eq configured_eq globFirst_eq handler_def
      currentReq_def deref_simps exampleObjects_simps keys_examples keys_emptyObject fresh_def)

section \<open>What is done for the matching entry\<close>

lemma upperChar_T: "upperChar c = CHR ''T'' \<longleftrightarrow> c = CHR ''t'' \<or> c = CHR ''T''"
  by (simp add: upperChar_def lowerLetters_def upperLetters_def)

lemma lowerChar_t: "lowerChar c = CHR ''t'' \<longleftrightarrow> c = CHR ''t'' \<or> c = CHR ''T''"
  by (simp add: lowerChar_def lowerLetters_def upperLetters_def)

lemma upperChar_R: "upperChar c = CHR ''R'' \<longleftrightarrow> c = CHR ''r'' \<or> c = CHR ''R''"
  by (simp add: upperChar_def lowerLetters_def upperLetters_def)

lemma lowerChar_r: "lowerChar c = CHR ''r'' \<longleftrightarrow> c = CHR ''r'' \<or> c = CHR ''R''"
  by (simp add: lowerChar_def lowerLetters_def upperLetters_def)

lemma upperChar_U: "upperChar c = CHR ''U'' \<longleftrightarrow> c = CHR ''u'' \<or> c = CHR ''U''"
  by (simp add: upperChar_def lowerLetters_def upperLetters_def)

lemma lowerChar_u: "lowerChar c = CHR ''u'' \<longleftrightarrow> c = CHR ''u'' \<or> c = CHR ''U''"
  by (simp add: lowerChar_def lowerLetters_def upperLetters_def)

lemma upperChar_E: "upperChar c = CHR ''E'' \<longleftrightarrow> c = CHR ''e'' \<or> c = CHR ''E''"
  by (simp add: upperChar_def lowerLetters_def upperLetters_def)

lemma lowerChar_e: "lowerChar c = CHR ''e'' \<longleftrightarrow> c = CHR ''e'' \<or> c = CHR ''E''"
  by (simp add: lowerChar_def lowerLetters_def upperLetters_def)

lemma toUpperCase_true: "toUpperCase ''true'' = ''TRUE''"
  by (simp add: toUpperCase_def upperChar_def lowerLetters_def upperLetters_def)

text \<open>The test of the source, lower-casing the flag, is equality with "true" up to case.\<close>

lemma eqIgnoreCase_true: "eqIgnoreCase t ''true'' \<longleftrightarrow> toLowerCase t = ''true''"
  unfolding eqIgnoreCase_def toUpperCase_true
  by (auto simp: toUpperCase_def toLowerCase_def map_eq_Cons_conv
      upperChar_T upperChar_R upperChar_U upperChar_E
      lowerChar_t lowerChar_r lowerChar_u lowerChar_e)

lemma simulatesTimeout_iff:
  "simulatesTimeout p \<longleftrightarrow>
     isTimeout p = JBool True \<or> (\<exists>t. isTimeout p = JStr t \<and> eqIgnoreCase t ''true'')"
  by (cases "isTimeout p") (simp_all add: simulatesTimeout_def eqIgnoreCase_true)

lemma simulatesTimeout_responseTime:
  "simulatesTimeout (p\<lparr>responseTime := d\<rparr>) = simulatesTimeout p"
  by (simp add: simulatesTimeout_def)

lemma respond_timeout:
  assumes "simulatesTimeout (snd entry)"
  shows "respond h req entry x =
     x\<lparr>console := console x @
          [LogMatched (req_url req) (fst entry), LogSimulateTimeout (req_url req)],
       statusCode := (if truthy (status (snd entry)) then status (snd entry) else JNum (Fin 200)),
       res_headers := (if truthy (headers (snd entry)) then headers (snd entry) else JObj [])\<rparr>"
  using assms by (simp add: respond_def Let_def)

lemma respond_timed:
  assumes "\<not> simulatesTimeout (snd entry)"
  shows "timers (respond h req entry x) =
           timers x @ [\<lparr>after = delayMs (snd entry), text_to_write = resolvedBody h (snd entry)\<rparr>]"
    and "statusCode (respond h req entry x) =
           (if truthy (status (snd entry)) then status (snd entry) else JNum (Fin 200))"
    and "res_headers (respond h req entry x) =
           (if truthy (headers (snd entry)) then headers (snd entry) else JObj [])"
    and "\<not> isString (responseText (snd entry)) \<Longrightarrow> truthy (responseFile (snd entry)) \<Longrightarrow>
           fs_read h (responseFile (snd entry)) = Inl err \<Longrightarrow>
           LogError err \<in> set (console (respond h req entry x))"
proof -
  show "timers (respond h req entry x) =
           timers x @ [\<lparr>after = delayMs (snd entry), text_to_write = resolvedBody h (snd entry)\<rparr>]"
    using assms
    by (cases "responseText (snd entry)"; cases "responseTime (snd entry)")
       (simp_all add: respond_def Let_def delayMs_def resolvedBody_def split: sum.splits)
  show "statusCode (respond h req entry x) =
           (if truthy (status (snd entry)) then status (snd entry) else JNum (Fin 200))"
    using assms by (simp add: respond_def Let_def split: sum.splits prod.splits)
  show "res_headers (respond h req entry x) =
           (if truthy (headers (snd entry)) then headers (snd entry) else JObj [])"
    using assms by (simp add: respond_def Let_def split: sum.splits prod.splits)
  show "\<not> isString (responseText (snd entry)) \<Longrightarrow> truthy (responseFile (snd entry)) \<Longrightarrow>
           fs_read h (responseFile (snd entry)) = Inl err \<Longrightarrow>
           LogError err \<in> set (console (respond h req entry x))"
    using assms by (simp add: respond_def Let_def)
qed


text \<open>
  Claim C6. When the entry the handler matches has a plan whose \<open>isTimeout\<close> is the boolean
  true, or a string equal to "true" up to case, the handler throws nothing, writes nothing,
  does not close the response and registers no timer, so nothing is ever delivered; and the
  outcome is the same whatever the plan's \<open>responseTime\<close> is.
\<close>

theorem timeout_plan_never_answers:
  assumes "length (Object_keys (currentReq s)) = 0"
    and "v_mapping s = pre @ (expReq, expResp) # rest"
    and "\<forall>e \<in> set pre. entryMatches h (deref (objects s) (fst e)) req = Inr False"
    and "entryMatches h (deref (objects s) expReq) req = Inr True"
    and "isTimeout expResp = JBool True \<or>
         (\<exists>t. isTimeout expResp = JStr t \<and> eqIgnoreCase t ''true'')"
  shows "fst (handler h s req x) = None \<and>
         written (snd (handler h s req x)) = written x \<and>
         closed (snd (handler h s req x)) = closed x \<and>
         timers (snd (handler h s req x)) = timers x \<and>
         handler h (s\<lparr>v_mapping := pre @ (expReq, expResp\<lparr>responseTime := d\<rparr>) # rest\<rparr>) req x =
           handler h s req x"
proof -
  have t: "simulatesTimeout expResp"
    using assms(5) by (simp add: simulatesTimeout_iff)
  have m: "entryMatches h (deref (objects s) (fst (expReq, p))) req = Inr True" for p
    using assms(4) by simp
  have h1: "handler h s req x = (None, respond h req (entryOf (objects s) (expReq, expResp)) x)"
    using assms(1,2,3) m by (rule handler_first_match)
  have h2: "handler h (s\<lparr>v_mapping := pre @ (expReq, expResp\<lparr>responseTime := d\<rparr>) # rest\<rparr>) req x =
              (None, respond h req
                 (entryOf (objects (s\<lparr>v_mapping := pre @ (expReq, expResp\<lparr>responseTime := d\<rparr>) # rest\<rparr>))
                    (expReq, expResp\<lparr>responseTime := d\<rparr>)) x)"
    using assms(1,3) m by (intro handler_first_match) (simp_all add: currentReq_def)
  have r1: "respond h req (p, expResp\<lparr>responseTime := d\<rparr>) x = respond h req (p, expResp) x" for p
    using t by (simp add: respond_timeout simulatesTimeout_responseTime)
  show ?thesis
    using t by (simp add: h1 h2 r1 respond_timeout entryOf_def)
qed

text \<open>
  Claim C7. When the entry the handler matches has a plan that does not simulate a timeout,
  the handler throws nothing and registers one timer, whose callback writes the resolved
  body and closes the response. The body is \<open>responseText\<close> when that is a string;
  otherwise, when \<open>responseFile\<close> is set, what \<^verbatim>\<open>fs.read\<close> returns, or the empty string when
  \<^verbatim>\<open>fs.read\<close> throws, the error being logged and not thrown further; otherwise the empty
  string. The status is 200 when the plan has none, the headers are the empty object when
  the plan has none, and the delay is 0 when \<open>responseTime\<close> is not a number.
\<close>

theorem response_synthesis:
  assumes "length (Object_keys (currentReq s)) = 0"
    and "v_mapping s = pre @ (expReq, expResp) # rest"
    and "\<forall>e \<in> set pre. entryMatches h (deref (objects s) (fst e)) req = Inr False"
    and "entryMatches h (deref (objects s) expReq) req = Inr True"
    and "\<not> (isTimeout expResp = JBool True \<or>
            (\<exists>t. isTimeout expResp = JStr t \<and> eqIgnoreCase t ''true''))"
  shows "fst (handler h s req x) = None \<and>
         timers (snd (handler h s req x)) =
           timers x @ [\<lparr>after = delayMs expResp, text_to_write = resolvedBody h expResp\<rparr>] \<and>
         written (fire req \<lparr>after = delayMs expResp, text_to_write = resolvedBody h expResp\<rparr>
                    (snd (handler h s req x))) = written x @ [resolvedBody h expResp] \<and>
         closed (fire req \<lparr>after = delayMs expResp, text_to_write = resolvedBody h expResp\<rparr>
                    (snd (handler h s req x))) \<and>
         (isString (responseText expResp) \<longrightarrow> JStr (resolvedBody h expResp) = responseText expResp) \<and>
         (\<not> isString (responseText expResp) \<and> truthy (responseFile expResp) \<longrightarrow>
            (\<forall>contents. fs_read h (responseFile expResp) = Inr contents \<longrightarrow>
               resolvedBody h expResp = contents) \<and>
            (\<forall>err. fs_read h (responseFile expResp) = Inl err \<longrightarrow>
               resolvedBody h expResp = [] \<and>
               LogError err \<in> set (console (snd (handler h s req x))))) \<and>
         (\<not> isString (responseText expResp) \<and> \<not> truthy (responseFile expResp) \<longrightarrow>
            resolvedBody h expResp = []) \<and>
         statusCode (snd (handler h s req x)) =
           (if truthy (status expResp) then status expResp else JNum (Fin 200)) \<and>
         (status expResp = JUndefined \<longrightarrow> statusCode (snd (handler h s req x)) = JNum (Fin 200)) \<and>
         res_headers (snd (handler h s req x)) =
           (if truthy (headers expResp) then headers expResp else JObj []) \<and>
         (headers expResp = JUndefined \<longrightarrow> res_headers (snd (handler h s req x)) = JObj []) \<and>
         (\<not> isNumber (responseTime expResp) \<longrightarrow> delayMs expResp = JNum (Fin 0)) \<and>
         (isNumber (responseTime expResp) \<longrightarrow> delayMs expResp = responseTime expResp)"
proof -
  define entry where "entry = entryOf (objects s) (expReq, expResp)"
  have sn: "snd entry = expResp"
    by (simp add: entry_def entryOf_def)
  have t: "\<not> simulatesTimeout (snd entry)"
    using assms(5) by (simp add: sn simulatesTimeout_iff)
  have m: "entryMatches h (deref (objects s) (fst (expReq, expResp))) req = Inr True"
    using assms(4) by simp
  have h1: "handler h s req x = (None, respond h req entry x)"
    unfolding entry_def using assms(1,2,3) m by (rule handler_first_match)
  have body1: "isString (responseText expResp) \<longrightarrow> JStr (resolvedBody h expResp) = responseText expResp"
    by (cases "responseText expResp") (simp_all add: resolvedBody_def)
  have body2: "\<not> isString (responseText expResp) \<and> truthy (responseFile expResp) \<longrightarrow>
            (\<forall>contents. fs_read h (responseFile expResp) = Inr contents \<longrightarrow>
               resolvedBody h expResp = contents) \<and>
            (\<forall>err. fs_read h (responseFile expResp) = Inl err \<longrightarrow>
               resolvedBody h expResp = [] \<and>
               LogError err \<in> set (console (snd (handler h s req x))))"
    using respond_timed(4) [OF t, of h _ req x]
    by (cases "responseText expResp") (simp_all add: resolvedBody_def h1 sn)
  have body3: "\<not> isString (responseText expResp) \<and> \<not> truthy (responseFile expResp) \<longrightarrow>
            resolvedBody h expResp = []"
    by (cases "responseText expResp") (simp_all add: resolvedBody_def)
  have delay: "(\<not> isNumber (responseTime expResp) \<longrightarrow> delayMs expResp = JNum (Fin 0)) \<and>
         (isNumber (responseTime expResp) \<longrightarrow> delayMs expResp = responseTime expResp)"
    by (cases "responseTime expResp") (simp_all add: delayMs_def)
  have tm: "timers (snd (handler h s req x)) =
           timers x @ [\<lparr>after = delayMs expResp, text_to_write = resolvedBody h expResp\<rparr>]"
    using respond_timed(1) [OF t, of h req x] by (simp add: h1 sn)
  have st: "statusCode (snd (handler h s req x)) =
           (if truthy (status expResp) then status expResp else JNum (Fin 200))"
    using respond_timed(2) [OF t, of h req x] by (simp add: h1 sn)
  have hd: "res_headers (snd (handler h s req x)) =
           (if truthy (headers expResp) then headers expResp else JObj [])"
    using respond_timed(3) [OF t, of h req x] by (simp add: h1 sn)
  have fr: "written (fire req \<lparr>after = delayMs expResp, text_to_write = resolvedBody h expResp\<rparr>
                    (snd (handler h s req x))) = written x @ [resolvedBody h expResp] \<and>
         closed (fire req \<lparr>after = delayMs expResp, text_to_write = resolvedBody h expResp\<rparr>
                    (snd (handler h s req x)))"
    by (simp add: fire_def h1 respond_untouched)
  have e: "fst (handler h s req x) = None" by (simp add: h1)
  have st2: "status expResp = JUndefined \<longrightarrow> statusCode (snd (handler h s req x)) = JNum (Fin 200)"
    using st by simp
  have hd2: "headers expResp = JUndefined \<longrightarrow> res_headers (snd (handler h s req x)) = JObj []"
    using hd by simp
  from e tm fr body1 body2 body3 st st2 hd hd2 delay show ?thesis by blast
qed

lemma toUpperCase_True: "toUpperCase ''True'' = ''TRUE''" "toUpperCase ''false'' = ''FALSE''"
  by (simp_all add: toUpperCase_def upperChar_def lowerLetters_def upperLetters_def)

theorem timeout_plan_never_answers_witness:
  "length (Object_keys (currentReq timeoutConfigured)) = 0 \<and>
   v_mapping timeoutConfigured = [] @ (Caller 11, planTimeout) # [] \<and>
   entryMatches exampleHost (deref (objects timeoutConfigured) (Caller 11)) request1 = Inr True \<and>
   isTimeout planTimeout = JStr ''True'' \<and> eqIgnoreCase ''True'' ''true'' \<and>
   handler exampleHost timeoutConfigured request1 fresh =
     (None, fresh\<lparr>console := [LogMatched ''/ajax_info_1?x=1'' pattern1,
                               LogSimulateTimeout ''/ajax_info_1?x=1''],
                   statusCode := JNum (Fin 200), res_headers := JObj []\<rparr>) \<and>
   written (snd (handler exampleHost timeoutConfigured request1 fresh)) = [] \<and>
   \<not> closed (snd (handler exampleHost timeoutConfigured request1 fresh)) \<and>
   timers (snd (handler exampleHost timeoutConfigured request1 fresh)) = []"
proof -
  have o: "deref (objects timeoutConfigured) (Caller 11) = pattern1"
    by (simp add: timeoutConfigured_eq deref_simps exampleObjects_simps)
  have a: "length (Object_keys (currentReq timeoutConfigured)) = 0"
    by (simp add: timeoutConfigured_eq currentReq_def deref_simps keys_emptyObject)
  have b: "v_mapping timeoutConfigured = [] @ (Caller 11, planTimeout) # []"
    by (simp add: timeoutConfigured_eq)
  have c: "\<forall>e \<in> set []. entryMatches exampleHost (deref (objects timeoutConfigured) (fst e)) request1 = Inr False"
    by simp
  have d: "entryMatches exampleHost (deref (objects timeoutConfigured) (Caller 11)) request1 = Inr True"
    by (simp add: o match_examples)
  have i: "isTimeout planTimeout = JStr ''True''"
    by (simp add: planTimeout_def)
  have j: "eqIgnoreCase ''True'' ''true''"
    by (simp add: eqIgnoreCase_def toUpperCase_True toUpperCase_true)
  have e: "isTimeout planTimeout = JBool True \<or>
           (\<exists>t. isTimeout planTimeout = JStr t \<and> eqIgnoreCase t ''true'')"
    using i j by simp
  have st: "simulatesTimeout (snd (pattern1, planTimeout))"
    using e by (simp add: simulatesTimeout_iff)
  have d': "entryMatches exampleHost (deref (objects timeoutConfigured) (fst (Caller 11, planTimeout))) request1 = Inr True"
    using d by simp
  have r0: "handler exampleHost timeoutConfigured request1 fresh =
     (None, respond exampleHost request1 (entryOf (objects timeoutConfigured) (Caller 11, planTimeout)) fresh)"
    using a b c d' by (rule handler_first_match)
  have r1: "respond exampleHost request1 (pattern1, planTimeout) fresh =
     fresh\<lparr>console := [LogMatched ''/ajax_info_1?x=1'' pattern1,
                          LogSimulateTimeout ''/ajax_info_1?x=1''],
           statusCode := JNum (Fin 200), res_headers := JObj []\<rparr>"
    unfolding respond_timeout [OF st]
    by (simp add: planTimeout_def request1_def fresh_def)
  have r: "handler exampleHost timeoutConfigured request1 fresh =
     (None, fresh\<lparr>console := [LogMatched ''/ajax_info_1?x=1'' pattern1,
                               LogSimulateTimeout ''/ajax_info_1?x=1''],
                   statusCode := JNum (Fin 200), res_headers := JObj []\<rparr>)"
    using r0 r1 o by (simp add: entryOf_def)
  show ?thesis
    using a b d i j r timeout_plan_never_answers [where x = fresh, OF a b c d e]
    by (simp add: fresh_def)
qed

theorem response_synthesis_witness:
  "length (Object_keys (currentReq fileConfigured)) = 0 \<and>
   v_mapping fileConfigured = [(Caller 12, plan2)] @ (Caller 11, planFile) # [] \<and>
   entryMatches exampleHost (deref (objects fileConfigured) (fst (Caller 12, plan2))) request1 = Inr False \<and>
   entryMatches exampleHost (deref (objects fileConfigured) (Caller 11)) request1 = Inr True \<and>
   \<not> (isTimeout planFile = JBool True \<or>
       (\<exists>t. isTimeout planFile = JStr t \<and> eqIgnoreCase t ''true'')) \<and>
   \<not> isString (responseText planFile) \<and> truthy (responseFile planFile) \<and>
   fs_read exampleHost (responseFile planFile) = Inl ''no such file'' \<and>
   status planFile = JUndefined \<and> headers planFile = JUndefined \<and>
   \<not> isNumber (responseTime planFile) \<and>
   fst (handler exampleHost fileConfigured request1 fresh) = None \<and>
   timers (snd (handler exampleHost fileConfigured request1 fresh)) =
     [\<lparr>after = JNum (Fin 0), text_to_write = []\<rparr>] \<and>
   statusCode (snd (handler exampleHost fileConfigured request1 fresh)) = JNum (Fin 200) \<and>
   res_headers (snd (handler exampleHost fileConfigured request1 fresh)) = JObj [] \<and>
   LogError ''no such file'' \<in> set (console (snd (handler exampleHost fileConfigured request1 fresh)))"
proof -
  have o: "objects fileConfigured = exampleObjects"
    by (simp add: fileConfigured_eq)
  have a: "length (Object_keys (currentReq fileConfigured)) = 0"
    by (simp add: fileConfigured_eq currentReq_def deref_simps keys_emptyObject)
  have b: "v_mapping fileConfigured = [(Caller 12, plan2)] @ (Caller 11, planFile) # []"
    by (simp add: fileConfigured_eq)
  have c: "\<forall>e \<in> set [(Caller 12, plan2)].
             entryMatches exampleHost (deref (objects fileConfigured) (fst e)) request1 = Inr False"
    by (simp add: o deref_simps exampleObjects_simps match_examples)
  have d: "entryMatches exampleHost (deref (objects fileConfigured) (Caller 11)) request1 = Inr True"
    by (simp add: o deref_simps exampleObjects_simps match_examples)
  have e: "\<not> (isTimeout planFile = JBool True \<or>
       (\<exists>t. isTimeout planFile = JStr t \<and> eqIgnoreCase t ''true''))"
    by (simp add: planFile_def eqIgnoreCase_def toUpperCase_True toUpperCase_true)
  have f: "\<not> isString (responseText planFile)" "truthy (responseFile planFile)"
    "fs_read exampleHost (responseFile planFile) = Inl ''no such file''"
    "status planFile = JUndefined" "headers planFile = JUndefined"
    "\<not> isNumber (responseTime planFile)"
    by (simp_all add: planFile_def exampleHost_def)
  have g: "resolvedBody exampleHost planFile = []" "delayMs planFile = JNum (Fin 0)"
    by (simp_all add: resolvedBody_def delayMs_def planFile_def exampleHost_def)
  show ?thesis
    using a b c d e f g response_synthesis [where x = fresh, OF a b c d e]
    by (simp add: fresh_def)
qed

section \<open>The condition of the handler and the condition of the filter\<close>

lemma methodOperand_rule:
  assumes "toUpperCase m = m"
  shows "methodOperand expReq m \<longleftrightarrow>
     falsy (method_pat expReq) \<or>
     (case method_pat expReq of None \<Rightarrow> False | Some pm \<Rightarrow> eqIgnoreCase pm m)"
  using assms by (cases "method_pat expReq") (auto simp: methodOperand_def eqIgnoreCase_def)

lemma urlOperand_rule:
  "urlOperand h expReq u = Inr True \<longleftrightarrow>
     falsy (url expReq) \<or>
     (case url expReq of None \<Rightarrow> False
      | Some pu \<Rightarrow> sublist pu u \<or> regExp h pu u = Some True)"
  by (cases "url expReq")
     (auto simp: urlOperand_def js_or_def RegExp_test_def indexOf_sublist split: option.splits)

lemma search_rule:
  "js_or (0 \<le> indexOf t pd) (RegExp_test h pd t) = Inr True \<longleftrightarrow>
     sublist pd t \<or> regExp h pd t = Some True"
  by (auto simp: js_or_def RegExp_test_def indexOf_sublist split: option.splits)

lemma js_and_True:
  "js_and (Inr a) (js_and b c) = Inr True \<longleftrightarrow> a \<and> b = Inr True \<and> c = Inr True"
  by (auto simp: js_and_def split: sum.splits)

lemma entryMatches_rule:
  assumes "toUpperCase (req_method req) = req_method req"
  shows "(entryMatches h expReq req = Inr True) =
           threePartRule falsy h expReq (req_method req) (req_url req) (serializedBody req)"
proof -
  have d: "(case data expReq of
             None \<Rightarrow> Inr True
           | Some pd \<Rightarrow>
               js_or (pd = [])
                 (case post req of
                    None \<Rightarrow> Inr False
                  | Some body \<Rightarrow>
                      if body = [] then Inr False
                      else js_or (0 \<le> indexOf (JSON_stringify body) pd)
                             (RegExp_test h pd (JSON_stringify body)))) = Inr True \<longleftrightarrow>
           falsy (data expReq) \<or>
           (case data expReq of None \<Rightarrow> False
            | Some pd \<Rightarrow>
                (case serializedBody req of None \<Rightarrow> False
                 | Some t \<Rightarrow> sublist pd t \<or> regExp h pd t = Some True))"
  proof (cases "data expReq")
    case None
    then show ?thesis by simp
  next
    case (Some pd)
    show ?thesis
    proof (cases "post req")
      case None
      then show ?thesis using Some by (simp add: js_or_def serializedBody_def)
    next
      case (Some body)
      show ?thesis
      proof (cases "body = []")
        case True
        then show ?thesis
          using \<open>data expReq = Some pd\<close> Some by (simp add: js_or_def serializedBody_def)
      next
        case False
        then show ?thesis
          using \<open>data expReq = Some pd\<close> Some search_rule [of "JSON_stringify body" pd h]
          by (simp add: serializedBody_def js_or_def)
      qed
    qed
  qed
  show ?thesis
    unfolding entryMatches_def js_and_True threePartRule_def d
    by (simp add: methodOperand_rule [OF assms] urlOperand_rule)
qed

text \<open>
  Claim C2, as the code has it. For a request whose method is in upper case, the condition
  of the handler is true exactly when the three parts hold, where a field of the pattern
  that is the empty string counts as absent like a missing one, and the request has a body
  when its \<open>post\<close> is a string that is not empty: (1) the method is absent or equals the
  request's method up to case; (2) the url is absent, occurs in the request's url, or is a
  regular expression that matches it; (3) the data is absent, or the request has a body
  whose serialization contains the data or is matched by it as a regular expression.
\<close>

theorem three_part_rule:
  assumes "toUpperCase (req_method req) = req_method req"
  shows "(entryMatches h expReq req = Inr True) =
           threePartRule falsy h expReq (req_method req) (req_url req) (serializedBody req)"
  using assms by (rule entryMatches_rule)

theorem three_part_rule_witness:
  "toUpperCase (req_method request2) = req_method request2 \<and>
   entryMatches exampleHost pattern2 request2 = Inr True \<and>
   threePartRule falsy exampleHost pattern2 ''POST'' ''/ajax_info_2''
     (Some (JSON_stringify ''a=b&member_id=1''))"
proof -
  have u: "toUpperCase (req_method request2) = req_method request2"
    by (simp add: request2_def toUpperCase_examples)
  show ?thesis
    using u match_example2 three_part_rule [OF u, of exampleHost pattern2]
    by (simp add: request2_def serializedBody_def)
qed

text \<open>
  With "absent" read as "the field is missing", as the specification words it, the rule
  fails for a pattern whose data is the empty string and a request with no body: the
  condition of the handler is true, part (3) of the rule is not.
\<close>

theorem three_part_rule_counterexample:
  "toUpperCase (req_method request1) = req_method request1 \<and>
   currentReq (when_fn 14 started) = patternEmptyData \<and>
   entryMatches exampleHost patternEmptyData request1 = Inr True \<and>
   \<not> threePartRule absent exampleHost patternEmptyData (req_method request1) (req_url request1)
        (serializedBody request1)"
proof -
  have w: "currentReq (when_fn 14 started) = patternEmptyData"
    by (simp add: when_started currentReq_def deref_simps started_fields exampleObjects_simps)
  show ?thesis
    unfolding w
    by (simp add: request1_def toUpperCase_examples patternEmptyData_def
        entryMatches_def methodOperand_def urlOperand_def js_and_def js_or_def
        threePartRule_def absent_def serializedBody_def)
qed

lemma falsy_data_operand:
  assumes "falsy (data expReq)"
  shows "(case data expReq of None \<Rightarrow> Inr True | Some pd \<Rightarrow> js_or (pd = []) other) = Inr True"
  using assms by (cases "data expReq") (simp_all add: js_or_def)

lemma falsy_data_rule:
  assumes "falsy (data expReq)"
  shows "changeUrlMatches h expReq \<lparr>rd_method = m, rd_url = u, postData = b1\<rparr> =
         entryMatches h expReq \<lparr>req_method = m, req_url = u, post = b2\<rparr>"
  using assms
  by (cases "data expReq") (simp_all add: changeUrlMatches_def entryMatches_def js_or_def)

text \<open>
  Claim C8, as the code has it. The filter and the handler apply the same three-part rule
  (the method in upper case, an empty field counting as absent), the filter to the post
  data as the page sent it, the handler to the body serialized with \<^verbatim>\<open>JSON.stringify\<close>.
  For a request that carries a body the condition of each is true exactly when the rule
  holds of its text; for a pattern with no data the two conditions have the same outcome on
  every request.
\<close>

theorem filter_rule:
  assumes "toUpperCase m = m" and "body \<noteq> []"
  shows "((changeUrlMatches h expReq \<lparr>rd_method = m, rd_url = u, postData = Some body\<rparr> = Inr True) =
            threePartRule falsy h expReq m u (Some body)) \<and>
         ((entryMatches h expReq \<lparr>req_method = m, req_url = u, post = Some body\<rparr> = Inr True) =
            threePartRule falsy h expReq m u (Some (JSON_stringify body))) \<and>
         (falsy (data expReq) \<longrightarrow>
            changeUrlMatches h expReq \<lparr>rd_method = m, rd_url = u, postData = b1\<rparr> =
            entryMatches h expReq \<lparr>req_method = m, req_url = u, post = b2\<rparr>)"
proof -
  have f: "(changeUrlMatches h expReq \<lparr>rd_method = m, rd_url = u, postData = Some body\<rparr> = Inr True) =
            threePartRule falsy h expReq m u (Some body)"
  proof (cases "data expReq")
    case None
    then show ?thesis
      by (simp add: changeUrlMatches_def js_and_True threePartRule_def
          methodOperand_rule [OF assms(1)] urlOperand_rule)
  next
    case (Some pd)
    then show ?thesis
      using search_rule [of body pd h]
      by (cases "pd = []")
         (simp_all add: changeUrlMatches_def js_and_True threePartRule_def
            methodOperand_rule [OF assms(1)] urlOperand_rule js_or_def)
  qed
  have u: "toUpperCase (req_method \<lparr>req_method = m, req_url = u, post = Some body\<rparr>) =
           req_method \<lparr>req_method = m, req_url = u, post = Some body\<rparr>"
    using assms(1) by simp
  have s: "(entryMatches h expReq \<lparr>req_method = m, req_url = u, post = Some body\<rparr> = Inr True) =
            threePartRule falsy h expReq m u (Some (JSON_stringify body))"
    using entryMatches_rule [OF u, of h expReq] assms(2) by (simp add: serializedBody_def)
  show ?thesis
    using f s falsy_data_rule by blast
qed

theorem filter_rule_witness:
  "toUpperCase ''POST'' = ''POST'' \<and> bodyLines \<noteq> [] \<and> falsy (data pattern1) \<and>
   changeUrlMatches exampleHost patternLines requestDataLines = Inr True \<and>
   threePartRule falsy exampleHost patternLines ''POST'' ''/ajax_info_2'' (Some bodyLines) \<and>
   entryMatches exampleHost patternLines requestLines = Inr False \<and>
   \<not> threePartRule falsy exampleHost patternLines ''POST'' ''/ajax_info_2''
        (Some (JSON_stringify bodyLines)) \<and>
   changeUrlMatches exampleHost pattern1 requestDataNoBody =
     entryMatches exampleHost pattern1 requestLines"
proof -
  have u: "toUpperCase ''POST'' = ''POST''"
    by (simp add: toUpperCase_examples)
  have b: "bodyLines \<noteq> []"
    by (simp add: bodyLines_def)
  have f: "falsy (data pattern1)"
    by (simp add: pattern1_def)
  have c: "changeUrlMatches exampleHost patternLines requestDataLines = Inr True"
    by (simp add: changeUrlMatches_def patternLines_def requestDataLines_def bodyLines_def
        methodOperand_def urlOperand_def js_and_def js_or_def indexOf_def)
  have e: "entryMatches exampleHost patternLines requestLines = Inr False"
    by (simp add: entryMatches_def patternLines_def requestLines_def bodyLines_def
        methodOperand_def urlOperand_def js_and_def js_or_def indexOf_def
        JSON_stringify_def quoteChar_def RegExp_test_def exampleHost_def literalRegExp_def
        specialChars_def)
  show ?thesis
    using u b f c e
      filter_rule [OF u b, of exampleHost patternLines "''/ajax_info_2''"]
      filter_rule [OF u b, of exampleHost pattern1 "''/ajax_info_2''" None "Some bodyLines"]
    by (simp add: requestDataLines_def requestLines_def requestDataNoBody_def)
qed

text \<open>
  The claim as the specification states it, the two conditions equivalent on the same
  method, url and body, fails: for a body of two lines and a pattern that holds the line
  break, the filter finds the pattern in the post data and the handler does not find it in
  the serialized body, where the line break is written as an escape. And for a request with
  no body and a pattern with data, the handler's condition is false while the filter's
  throws (it calls \<^verbatim>\<open>indexOf\<close> on \<^verbatim>\<open>undefined\<close>).
\<close>

theorem filter_rule_counterexample:
  "currentReq (when_fn 15 started) = patternLines \<and>
   changeUrlMatches exampleHost patternLines requestDataLines = Inr True \<and>
   entryMatches exampleHost patternLines requestLines = Inr False \<and>
   rd_method requestDataLines = req_method requestLines \<and>
   rd_url requestDataLines = req_url requestLines \<and>
   postData requestDataLines = post requestLines \<and>
   changeUrlMatches exampleHost pattern2 requestDataNoBody = Inl TypeError \<and>
   entryMatches exampleHost pattern2 requestNoBody = Inr False"
proof -
  have w: "currentReq (when_fn 15 started) = patternLines"
    by (simp add: when_started currentReq_def deref_simps started_fields exampleObjects_simps)
  show ?thesis
    unfolding w
    by (simp add:
      changeUrlMatches_def entryMatches_def patternLines_def pattern2_def
      requestDataLines_def requestLines_def requestDataNoBody_def requestNoBody_def bodyLines_def
      methodOperand_def urlOperand_def js_and_def js_or_def indexOf_def toUpperCase_examples
      JSON_stringify_def quoteChar_def RegExp_test_def exampleHost_def literalRegExp_def
      specialChars_def)
qed

section \<open>Defining a pattern twice\<close>

lemma keys_after_when: "Object_keys (objects (when_fn a s) b) = Object_keys (objects s b)"
  by (simp add: when_fn_fields keys_escaped)

lemma pending_after_when:
  "Object_keys (currentReq (when_fn p2 (when_fn p1 s))) = Object_keys (objects s p2)"
  by (simp add: currentReq_when_fn keys_escaped keys_after_when)

text \<open>
  Claim C9, as the code has it. \<^verbatim>\<open>when(p2)\<close> after \<^verbatim>\<open>when(p1)\<close> throws nothing and makes
  \<open>p2\<close> the pending pattern: \<^verbatim>\<open>_currentReq\<close> refers to the caller's object \<open>p2\<close>, whose data
  \<^verbatim>\<open>when\<close> has quote-escaped in place, and no longer to \<open>p1\<close>; the list holds the same
  references as before. When \<open>p2\<close> has at least one field, the next \<^verbatim>\<open>response(plan)\<close>
  throws nothing, appends the pair of that object and the plan at the end of the list and
  empties the slot.
\<close>

theorem last_when_wins:
  assumes "Object_keys (objects s p2) \<noteq> []"
  shows "v_currentReq (when_fn p2 (when_fn p1 s)) = Caller p2 \<and>
         v_mapping (when_fn p2 (when_fn p1 s)) = v_mapping s \<and>
         currentReq (when_fn p2 (when_fn p1 s)) = objects (when_fn p2 (when_fn p1 s)) p2 \<and>
         (p1 \<noteq> p2 \<longrightarrow>
            objects (when_fn p2 (when_fn p1 s)) p2 =
              (objects s p2)\<lparr>data := map_option escapeQuotes (data (objects s p2))\<rparr>) \<and>
         fst (response h resp (when_fn p2 (when_fn p1 s))) = None \<and>
         v_mapping (snd (response h resp (when_fn p2 (when_fn p1 s)))) =
           v_mapping s @ [(Caller p2, resp)] \<and>
         objects (snd (response h resp (when_fn p2 (when_fn p1 s)))) =
           objects (when_fn p2 (when_fn p1 s)) \<and>
         v_currentReq (snd (response h resp (when_fn p2 (when_fn p1 s)))) = Literal"
proof -
  define s2 where "s2 = when_fn p2 (when_fn p1 s)"
  have k: "Object_keys (currentReq s2) \<noteq> []"
    using assms by (simp add: s2_def pending_after_when)
  have c: "v_currentReq s2 = Caller p2" "v_mapping s2 = v_mapping s"
    by (simp_all add: s2_def when_fn_fields)
  have d: "currentReq s2 = objects s2 p2"
    by (simp add: currentReq_def c deref_simps)
  have o: "p1 \<noteq> p2 \<longrightarrow>
            objects s2 p2 = (objects s p2)\<lparr>data := map_option escapeQuotes (data (objects s p2))\<rparr>"
    by (simp add: s2_def when_fn_fields)
  have r: "response h resp s2 =
             (None, (addToResourceRequestedEvent h (s2\<lparr>v_mapping := v_mapping s2 @ [(v_currentReq s2, resp)]\<rparr>))
                      \<lparr>v_currentReq := Literal\<rparr>)"
    using k by (simp add: response_def Let_def)
  have "fst (response h resp s2) = None \<and>
        v_mapping (snd (response h resp s2)) = v_mapping s @ [(Caller p2, resp)] \<and>
        objects (snd (response h resp s2)) = objects s2 \<and>
        v_currentReq (snd (response h resp s2)) = Literal"
    by (simp add: r c addToResourceRequestedEvent_def)
  with c d o show ?thesis
    unfolding s2_def by blast
qed

theorem last_when_wins_witness:
  "Object_keys (objects configured 12) \<noteq> [] \<and>
   Object_keys (currentReq (when_fn 11 configured)) \<noteq> [] \<and>
   currentReq (when_fn 12 (when_fn 11 configured)) = pattern2 \<and>
   response exampleHost plan2 (when_fn 12 (when_fn 11 configured)) =
     (None, configured\<lparr>v_mapping := v_mapping configured @ [(Caller 12, plan2)]\<rparr>)"
proof -
  have o: "objects configured = exampleObjects" "v_currentReq configured = Literal"
    by (simp_all add: configured_eq)
  have k: "Object_keys (objects configured 12) \<noteq> []"
    by (simp add: o exampleObjects_simps keys_examples)
  have w1: "when_fn 11 configured = configured\<lparr>v_currentReq := Caller 11\<rparr>"
    by (rule when_example) (simp_all add: o)
  have w2: "when_fn 12 (when_fn 11 configured) = configured\<lparr>v_currentReq := Caller 12\<rparr>"
    unfolding w1 by (subst when_example) (simp_all add: o)
  have k1: "Object_keys (currentReq (when_fn 11 configured)) \<noteq> []"
    by (simp add: w1 currentReq_def deref_simps o exampleObjects_simps keys_examples)
  have c: "currentReq (when_fn 12 (when_fn 11 configured)) = pattern2"
    by (simp add: w2 currentReq_def deref_simps o exampleObjects_simps)
  have r: "response exampleHost plan2 (when_fn 12 (when_fn 11 configured)) =
     (None, configured\<lparr>v_mapping := v_mapping configured @ [(Caller 12, plan2)]\<rparr>)"
    unfolding w2
    by (subst response_example)
       (simp_all add: currentReq_def deref_simps o exampleObjects_simps keys_examples)
  show ?thesis
    using k k1 c r last_when_wins [OF k, of 11 exampleHost plan2]
    by simp
qed

text \<open>
  The claim as the specification states it, for every second pattern, fails for the
  pattern with no field, \<^verbatim>\<open>{}\<close>: after \<^verbatim>\<open>when({})\<close> the slot holds an object with no key,
  which is how the source writes "no pending pattern", so the next \<^verbatim>\<open>response(plan)\<close>
  throws and appends nothing.
\<close>

theorem last_when_wins_counterexample:
  "Object_keys (currentReq (when_fn 11 configured)) \<noteq> [] \<and>
   objects configured 10 = emptyObject \<and>
   currentReq (when_fn 10 (when_fn 11 configured)) = emptyObject \<and>
   response exampleHost plan1 (when_fn 10 (when_fn 11 configured)) =
     (Some UnmatchedPatternError, when_fn 10 (when_fn 11 configured)) \<and>
   v_mapping (when_fn 10 (when_fn 11 configured)) = v_mapping configured"
proof -
  have o: "objects configured = exampleObjects" "v_currentReq configured = Literal"
    by (simp_all add: configured_eq)
  have w1: "when_fn 11 configured = configured\<lparr>v_currentReq := Caller 11\<rparr>"
    by (rule when_example) (simp_all add: o)
  have k1: "Object_keys (currentReq (when_fn 11 configured)) \<noteq> []"
    by (simp add: w1 currentReq_def deref_simps o exampleObjects_simps keys_examples)
  have c: "currentReq (when_fn 10 (when_fn 11 configured)) = emptyObject"
    by (simp add: currentReq_when_fn when_fn_fields o exampleObjects_simps emptyObject_def)
  have r: "response exampleHost plan1 (when_fn 10 (when_fn 11 configured)) =
     (Some UnmatchedPatternError, when_fn 10 (when_fn 11 configured))"
    by (simp add: response_def c keys_emptyObject)
  show ?thesis
    using k1 c r by (simp add: when_fn_fields o exampleObjects_simps)
qed

text \<open>
  The list holds references: \<^verbatim>\<open>when\<close> called again on an object that is already in the list
  escapes the quotes of its data once more, and the entry of the list changes with it.
\<close>

lemma when_rewrites_stored_entry:
  "v_mapping quotedStored = [(Caller 16, plan1)] \<and>
   data (deref (objects quotedStored) (Caller 16)) = Some [CHR ''a'', CHR 0x5C, CHR 0x22, CHR ''b''] \<and>
   v_mapping (when_fn 16 quotedStored) = [(Caller 16, plan1)] \<and>
   data (deref (objects (when_fn 16 quotedStored)) (Caller 16)) =
     Some [CHR ''a'', CHR 0x5C, CHR 0x5C, CHR 0x22, CHR ''b'']"
proof -
  have k: "Object_keys (currentReq (when_fn 16 started)) \<noteq> []"
    by (simp add: currentReq_when_fn keys_escaped started_fields exampleObjects_simps
        patternQuoted_def Object_keys_def)
  have q: "quotedStored = snd (response exampleHost plan1 (when_fn 16 started))"
    by (simp add: quotedStored_def)
  have m: "v_mapping quotedStored = [(Caller 16, plan1)]"
    unfolding q response_example [OF k] by (simp add: when_fn_fields started_fields)
  have d: "objects quotedStored 16 =
             patternQuoted\<lparr>data := Some [CHR ''a'', CHR 0x5C, CHR 0x22, CHR ''b'']\<rparr>"
    unfolding q response_example [OF k]
    by (simp add: when_fn_fields started_fields exampleObjects_simps)
       (simp add: patternQuoted_def escapeQuotes_def)
  show ?thesis
    using m d by (simp add: when_fn_fields deref_simps escapeQuotes_def)
qed

section \<open>The port\<close>

lemma parseInt_abc: "parseInt (trim ''abc'') = NaN"
  by (simp add: parseInt_def trim_def isWhiteSpace_def digitVal_def)

text \<open>What the validation of \<^verbatim>\<open>start\<close> does reject, and what it lets through.\<close>

lemma start_rejects_other_types:
  assumes "\<not> isString port" and "\<not> isNumber port"
  shows "start h port s = (Some (InvalidPortError NotNumeric), s)"
  using assms by (cases port) (simp_all add: start_def thisPort_def)

lemma start_rejects_out_of_range:
  assumes "thisPort port = Inr (Fin r)" and "r < 1025 \<or> 49151 < r"
  shows "start h port s = (Some (InvalidPortError OutOfRange), s)"
  using assms by (auto simp: start_def num_gt_def)

lemma start_accepts_in_range:
  assumes "thisPort port = Inr (Fin r)" and "1025 \<le> r" and "r \<le> 49151"
  shows "fst (start h port s) \<noteq> Some (InvalidPortError e)"
  using assms by (auto simp: start_def num_gt_def Let_def)

lemma start_first_time:
  assumes "thisPort port = Inr (Fin r)" and "1025 \<le> r" and "r \<le> 49151"
    and "\<not> v_isServerUp s" and "listen h (Fin r)"
  shows "fst (start h port s) = None \<and> isServerUp (snd (start h port s))"
  using assms by (auto simp: start_def num_gt_def Let_def isServerUp_def)

text \<open>
  Claim C3 at the argument \<^verbatim>\<open>"abc"\<close>, a string that is not numeric. \<^verbatim>\<open>parseInt\<close> gives
  \<open>NaN\<close>; both comparisons of the range test are false for \<open>NaN\<close>, so nothing is thrown
  there: \<^verbatim>\<open>_port\<close> becomes \<open>NaN\<close>, the server object is created and \<^verbatim>\<open>server.listen\<close> is
  called, and what it returns decides whether the server counts as up.
\<close>

theorem start_lets_NaN_through:
  "thisPort (JStr ''abc'') = Inr NaN \<and>
   fst (start h (JStr ''abc'') (initial objs)) \<noteq> Some (InvalidPortError e) \<and>
   fst (start h (JStr ''abc'') (initial objs)) = (if listen h NaN then None else Some ServerStartError) \<and>
   v_port (snd (start h (JStr ''abc'') (initial objs))) = NaN \<and>
   v_server (snd (start h (JStr ''abc'') (initial objs))) \<and>
   isServerUp (snd (start h (JStr ''abc'') (initial objs))) = listen h NaN \<and>
   fst (start h (JNum NaN) (initial objs)) \<noteq> Some (InvalidPortError e)"
  by (simp add: start_def thisPort_def parseInt_abc num_gt_def initial_def isServerUp_def
      addToResourceRequestedEvent_def num_eq_def Let_def)

end
